theory Spec2Isabelle
  imports Complex_Main "HOL-Library.Sublist"
begin

section \<open>Data model\<close>

text \<open>
  The guest message pipeline of Hostenly: \<^verbatim>\<open>twilio.js\<close> (TwilioService),
  \<^verbatim>\<open>ai-assistant.js\<close> (AIAssistant), \<^verbatim>\<open>vector-database.js\<close> (VectorDatabase),
  \<^verbatim>\<open>openai.js\<close> (OpenAIEmbeddings), \<^verbatim>\<open>webhook.js\<close> and the message route of
  \<^verbatim>\<open>conversation.js\<close>, together with what happens when these modules are loaded.

  Rows of the relational store are records, tables are lists in insertion order. The
  identifiers that the store generates are opaque keys; they are modelled as natural
  numbers, a new row taking a key larger than every key of its table. Creation
  timestamps are not modelled: a table's list order is the creation order.
\<close>

type_synonym ident = nat

record user =
  user_id :: ident
  messageCount :: int
  messageLimit :: int

record property_details =
  checkInTime :: "string option"
  checkOutTime :: "string option"
  wifiPassword :: "string option"
  houseRules :: "string option"
  location :: "string option"
  nearbyAttractions :: "string option"
  emergencyContacts :: "string option"
  faqs :: "(string \<times> string) list option"
  customNotes :: "string option"

record property =
  property_id :: ident
  name :: string
  phoneNumber :: string
  userId :: ident
  propertyDetails :: "property_details option"

record conversation =
  conversation_id :: ident
  propertyId :: ident
  guestPhoneNumber :: string
  guestName :: string

record message =
  message_id :: ident
  conversationId :: ident
  content :: string
  isFromGuest :: bool

text \<open>The body of the channel webhook: \<^verbatim>\<open>{ From, To, Body, ProfileName }\<close>.\<close>

record messageData =
  From :: string
  To :: string
  Body :: string
  ProfileName :: "string option"

text \<open>The argument of \<^verbatim>\<open>client.messages.create\<close>.\<close>

record twilio_message =
  msg_from :: string
  msg_to :: string
  msg_body :: string

text \<open>A row returned by the \<^verbatim>\<open>match_embeddings\<close> procedure, and its formatted form.\<close>

record item =
  item_id :: ident
  item_content :: string
  item_metadata :: string
  item_similarity :: real

record 'j search_result =
  result_id :: ident
  result_content :: string
  result_metadata :: 'j
  result_similarity :: real

text \<open>The argument of \<^verbatim>\<open>openai.createChatCompletion\<close>.\<close>

record chat_request =
  chat_model :: string
  chat_messages :: "(string \<times> string) list"
  max_tokens :: nat
  temperature :: real

text \<open>
  The places where the code calls the relational store. Each call may fail; one run of
  a function reaches each of its places at most once, so the availability of the store
  is given per place.
\<close>

datatype store_call =
    PropertyFindFirst | UserFindUnique | ConversationFindFirst | ConversationCreate
  | GuestMessageCreate | UserUpdateInbound | ReplyMessageCreate | UserUpdateReply
  | AssistantPropertyFindUnique | AssistantMessageFindMany
  | ManualConversationFindUnique | ManualMessageCreate | ManualUserUpdate
  | RouteConversationFindUnique | RouteMessageCreate | RouteConversationUpdate

datatype error =
    TypeError string
  | Error string
  | SyntaxError
  | StoreError store_call
  | ProviderError string

datatype rpc_result = RpcThrows error | RpcError string | RpcData "item list"

text \<open>
  The collaborators outside the repository: configuration, the transport, the store's
  availability, the embedding and completion providers, the vector procedure and the
  JSON parser of the runtime. \<^typ>\<open>'e\<close> is the type of embedding vectors, \<^typ>\<open>'j\<close> the
  type of parsed JSON values. The schema of the store is not part of the source:
  \<open>unique_pairs\<close> tells whether it has a unique index on the property and guest
  address of a conversation.
\<close>

record ('e, 'j) env =
  twilioPhoneNumber :: string
  twilio_create :: "twilio_message \<Rightarrow> error + string"
  store_fails :: "store_call \<Rightarrow> bool"
  unique_pairs :: bool
  createEmbedding :: "string \<Rightarrow> error + 'e list"
  match_embeddings :: "'e \<Rightarrow> real \<Rightarrow> nat \<Rightarrow> ident \<Rightarrow> rpc_result"
  JSON_parse :: "string \<Rightarrow> error + 'j"
  createChatCompletion :: "chat_request \<Rightarrow> error + string list"

text \<open>The durable state, and the messages the transport has accepted.\<close>

record world =
  users :: "user list"
  properties :: "property list"
  conversations :: "conversation list"
  messages :: "message list"
  outbox :: "twilio_message list"

text \<open>
  An asynchronous function that may throw: it returns its result or the error thrown,
  and the state it leaves behind (nothing is rolled back when it throws).
\<close>

type_synonym 'a io = "world \<Rightarrow> (error + 'a) \<times> world"

definition return_io :: "'a \<Rightarrow> 'a io" where
  "return_io x = (\<lambda>w. (Inr x, w))"

definition throw_io :: "error \<Rightarrow> 'a io" where
  "throw_io e = (\<lambda>w. (Inl e, w))"

definition bind_io :: "'a io \<Rightarrow> ('a \<Rightarrow> 'b io) \<Rightarrow> 'b io" where
  "bind_io m f = (\<lambda>w. case m w of (Inl e, w') \<Rightarrow> (Inl e, w') | (Inr x, w') \<Rightarrow> f x w')"

section \<open>Strings\<close>

definition nl :: string where
  "nl = [CHR 0x0A]"

definition apos :: string where
  "apos = [CHR 0x27]"

definition dquote :: string where
  "dquote = [CHR 0x22]"

text \<open>A JavaScript condition on an optional string: absent and empty are both false.\<close>

definition truthy :: "string option \<Rightarrow> bool" where
  "truthy v = (case v of None \<Rightarrow> False | Some s \<Rightarrow> s \<noteq> [])"

definition str :: "string option \<Rightarrow> string" where
  "str v = (case v of None \<Rightarrow> ''undefined'' | Some s \<Rightarrow> s)"

text \<open>\<^verbatim>\<open>s.startsWith(p)\<close>.\<close>

definition startsWith :: "string \<Rightarrow> string \<Rightarrow> bool" where
  "startsWith s p = prefix p s"

text \<open>\<^verbatim>\<open>s.replace(pat, rep)\<close> with a string pattern: the first occurrence only.\<close>

fun replace_first :: "string \<Rightarrow> string \<Rightarrow> string \<Rightarrow> string" where
  "replace_first pat rep [] = (if pat = [] then rep else [])"
| "replace_first pat rep (c # cs) =
     (if prefix pat (c # cs) then rep @ drop (length pat) (c # cs)
      else c # replace_first pat rep cs)"

text \<open>\<^verbatim>\<open>xs.join(sep)\<close>.\<close>

fun join :: "string \<Rightarrow> string list \<Rightarrow> string" where
  "join sep [] = []"
| "join sep [x] = x"
| "join sep (x # y # ys) = x @ sep @ join sep (y # ys)"

text \<open>
  A string is the sequence of the bytes of its UTF-8 encoding. \<^verbatim>\<open>s.trim()\<close> strips
  from both ends the white space and line terminators of the language: U+0009 to
  U+000D, U+0020, U+00A0, U+1680, U+2000 to U+200A, U+2028, U+2029, U+202F, U+205F,
  U+3000 and U+FEFF. \<open>white_space\<close> lists their encodings.
\<close>

definition white_space :: "string list" where
  "white_space =
     [[CHR 0x09], [CHR 0x0A], [CHR 0x0B], [CHR 0x0C], [CHR 0x0D], [CHR 0x20],
      [CHR 0xC2, CHR 0xA0],
      [CHR 0xE1, CHR 0x9A, CHR 0x80],
      [CHR 0xE2, CHR 0x80, CHR 0x80], [CHR 0xE2, CHR 0x80, CHR 0x81],
      [CHR 0xE2, CHR 0x80, CHR 0x82], [CHR 0xE2, CHR 0x80, CHR 0x83],
      [CHR 0xE2, CHR 0x80, CHR 0x84], [CHR 0xE2, CHR 0x80, CHR 0x85],
      [CHR 0xE2, CHR 0x80, CHR 0x86], [CHR 0xE2, CHR 0x80, CHR 0x87],
      [CHR 0xE2, CHR 0x80, CHR 0x88], [CHR 0xE2, CHR 0x80, CHR 0x89],
      [CHR 0xE2, CHR 0x80, CHR 0x8A],
      [CHR 0xE2, CHR 0x80, CHR 0xA8], [CHR 0xE2, CHR 0x80, CHR 0xA9],
      [CHR 0xE2, CHR 0x80, CHR 0xAF],
      [CHR 0xE2, CHR 0x81, CHR 0x9F],
      [CHR 0xE3, CHR 0x80, CHR 0x80],
      [CHR 0xEF, CHR 0xBB, CHR 0xBF]]"

text \<open>The rest of \<open>s\<close> after the first of the encodings that it starts with.\<close>

fun strip_one :: "string list \<Rightarrow> string \<Rightarrow> string option" where
  "strip_one [] s = None"
| "strip_one (ws # wss) s =
     (if prefix ws s then Some (drop (length ws) s) else strip_one wss s)"

text \<open>
  Stripping at the start, at most \<open>n\<close> times; each time removes at least one byte, so
  the length of the string is enough.
\<close>

fun strip_start :: "string list \<Rightarrow> nat \<Rightarrow> string \<Rightarrow> string" where
  "strip_start wss 0 s = s"
| "strip_start wss (Suc n) s =
     (case strip_one wss s of None \<Rightarrow> s | Some rest \<Rightarrow> strip_start wss n rest)"

definition trim :: "string \<Rightarrow> string" where
  "trim s =
     rev (strip_start (map rev white_space) (length s)
            (rev (strip_start white_space (length s) s)))"

section \<open>The relational store\<close>

definition fresh_id :: "ident list \<Rightarrow> ident" where
  "fresh_id ids = Suc (foldr max ids 0)"

definition store_read :: "('e, 'j) env \<Rightarrow> store_call \<Rightarrow> (world \<Rightarrow> 'a) \<Rightarrow> 'a io" where
  "store_read env site q =
     (\<lambda>w. if store_fails env site then (Inl (StoreError site), w) else (Inr (q w), w))"

definition store_write :: "('e, 'j) env \<Rightarrow> store_call \<Rightarrow> 'a io \<Rightarrow> 'a io" where
  "store_write env site f =
     (\<lambda>w. if store_fails env site then (Inl (StoreError site), w) else f w)"

definition property_findFirst :: "('e, 'j) env \<Rightarrow> store_call \<Rightarrow> string \<Rightarrow> property option io" where
  "property_findFirst env site phone =
     store_read env site (\<lambda>w. find (\<lambda>p. phoneNumber p = phone) (properties w))"

definition property_findUnique :: "('e, 'j) env \<Rightarrow> store_call \<Rightarrow> ident \<Rightarrow> property option io" where
  "property_findUnique env site pid =
     store_read env site (\<lambda>w. find (\<lambda>p. property_id p = pid) (properties w))"

definition user_findUnique :: "('e, 'j) env \<Rightarrow> store_call \<Rightarrow> ident \<Rightarrow> user option io" where
  "user_findUnique env site uid =
     store_read env site (\<lambda>w. find (\<lambda>u. user_id u = uid) (users w))"

definition conversation_findFirst ::
  "('e, 'j) env \<Rightarrow> store_call \<Rightarrow> ident \<Rightarrow> string \<Rightarrow> conversation option io" where
  "conversation_findFirst env site pid guest =
     store_read env site
       (\<lambda>w. find (\<lambda>c. propertyId c = pid \<and> guestPhoneNumber c = guest) (conversations w))"

definition conversation_findUnique ::
  "('e, 'j) env \<Rightarrow> store_call \<Rightarrow> ident \<Rightarrow> conversation option io" where
  "conversation_findUnique env site cid =
     store_read env site (\<lambda>w. find (\<lambda>c. conversation_id c = cid) (conversations w))"

text \<open>
  \<^verbatim>\<open>prisma.conversation.create\<close>. When the schema has the unique index, the creation of
  a second row for a property and guest address throws.
\<close>

definition conversation_create ::
  "('e, 'j) env \<Rightarrow> store_call \<Rightarrow> ident \<Rightarrow> string \<Rightarrow> string \<Rightarrow> conversation io" where
  "conversation_create env site pid guest gname =
     store_write env site
       (\<lambda>w. if unique_pairs env
               \<and> list_ex (\<lambda>c. propertyId c = pid \<and> guestPhoneNumber c = guest) (conversations w)
            then (Inl (Error ''Unique constraint failed''), w)
            else
              let c = \<lparr>conversation_id = fresh_id (map conversation_id (conversations w)),
                       propertyId = pid, guestPhoneNumber = guest, guestName = gname\<rparr>
              in (Inr c, w\<lparr>conversations := conversations w @ [c]\<rparr>))"

text \<open>
  \<^verbatim>\<open>prisma.conversation.update\<close> of \<^verbatim>\<open>updatedAt\<close>: the timestamp is not modelled;
  the call fails when the store does or when the row is absent.
\<close>

definition conversation_touch :: "('e, 'j) env \<Rightarrow> store_call \<Rightarrow> ident \<Rightarrow> unit io" where
  "conversation_touch env site cid =
     store_write env site
       (\<lambda>w. if list_ex (\<lambda>c. conversation_id c = cid) (conversations w) then (Inr (), w)
            else (Inl (Error ''Record to update not found''), w))"

definition message_create ::
  "('e, 'j) env \<Rightarrow> store_call \<Rightarrow> ident \<Rightarrow> string \<Rightarrow> bool \<Rightarrow> message io" where
  "message_create env site cid text fromGuest =
     store_write env site
       (\<lambda>w. let m = \<lparr>message_id = fresh_id (map message_id (messages w)),
                     conversationId = cid, content = text, isFromGuest = fromGuest\<rparr>
            in (Inr m, w\<lparr>messages := messages w @ [m]\<rparr>))"

text \<open>
  \<^verbatim>\<open>prisma.message.findMany\<close> with \<^verbatim>\<open>orderBy: { createdAt: 'desc' }\<close> and
  \<^verbatim>\<open>take: n\<close>: the newest \<open>n\<close> messages of the conversation, newest first.
\<close>

definition message_findMany ::
  "('e, 'j) env \<Rightarrow> store_call \<Rightarrow> ident \<Rightarrow> nat \<Rightarrow> message list io" where
  "message_findMany env site cid n =
     store_read env site
       (\<lambda>w. take n (rev (filter (\<lambda>m. conversationId m = cid) (messages w))))"

text \<open>
  \<^verbatim>\<open>prisma.user.update\<close> with \<^verbatim>\<open>data: { messageCount: { increment: 1 } }\<close>: an update
  of an absent row throws.
\<close>

definition user_increment :: "('e, 'j) env \<Rightarrow> store_call \<Rightarrow> ident \<Rightarrow> unit io" where
  "user_increment env site uid =
     store_write env site
       (\<lambda>w. if list_ex (\<lambda>u. user_id u = uid) (users w)
            then (Inr (),
                  w\<lparr>users := map (\<lambda>u. if user_id u = uid
                                       then u\<lparr>messageCount := messageCount u + 1\<rparr> else u)
                                 (users w)\<rparr>)
            else (Inl (Error ''Record to update not found''), w))"

section \<open>Outbound dispatch (twilio.js)\<close>

definition whatsapp :: "string \<Rightarrow> string" where
  "whatsapp n = (if startsWith n ''whatsapp:'' then n else ''whatsapp:'' @ n)"

text \<open>
  The bodies of two methods of \<^verbatim>\<open>TwilioService\<close> that the other bodies call on the
  constructed service. \<^verbatim>\<open>sendMessage\<close>: a transport failure is replaced by a fixed
  error.
\<close>

definition sendMessage :: "('e, 'j) env \<Rightarrow> string \<Rightarrow> string \<Rightarrow> string \<Rightarrow> string io" where
  "sendMessage env from to body =
     (\<lambda>w. let formattedFrom = whatsapp from;
              formattedTo = whatsapp to;
              m = \<lparr>msg_from = formattedFrom, msg_to = formattedTo, msg_body = body\<rparr>
          in case twilio_create env m of
               Inl e \<Rightarrow> (Inl (Error ''Failed to send message via Twilio''), w)
             | Inr sid \<Rightarrow> (Inr sid, w\<lparr>outbox := outbox w @ [m]\<rparr>))"

text \<open>\<^verbatim>\<open>sendWhatsAppMessage\<close>: a transport failure is thrown again.\<close>

definition sendWhatsAppMessage :: "('e, 'j) env \<Rightarrow> string \<Rightarrow> string \<Rightarrow> string io" where
  "sendWhatsAppMessage env to body =
     (\<lambda>w. let formattedTo = whatsapp to;
              m = \<lparr>msg_from = ''whatsapp:'' @ twilioPhoneNumber env,
                   msg_to = formattedTo, msg_body = body\<rparr>
          in case twilio_create env m of
               Inl e \<Rightarrow> (Inl e, w)
             | Inr sid \<Rightarrow> (Inr sid, w\<lparr>outbox := outbox w @ [m]\<rparr>))"

section \<open>Retrieval (openai.js, vector-database.js)\<close>

text \<open>
  \<^verbatim>\<open>OpenAIEmbeddings.generateEmbedding\<close>: whatever goes wrong, also a response without
  data, is thrown as the fixed error.
\<close>

definition generateEmbedding :: "('e, 'j) env \<Rightarrow> string \<Rightarrow> error + 'e" where
  "generateEmbedding env text =
     (case createEmbedding env text of
        Inl e \<Rightarrow> Inl (Error ''Failed to generate embedding'')
      | Inr [] \<Rightarrow> Inl (Error ''Failed to generate embedding'')
      | Inr (v # vs) \<Rightarrow> Inr v)"

text \<open>The \<^verbatim>\<open>data.map\<close> of \<^verbatim>\<open>searchSimilar\<close>: the first metadata that does not parse throws.\<close>

fun format_results :: "(string \<Rightarrow> error + 'j) \<Rightarrow> item list \<Rightarrow> error + 'j search_result list" where
  "format_results parse [] = Inr []"
| "format_results parse (i # is) =
     (case parse (item_metadata i) of
        Inl e \<Rightarrow> Inl e
      | Inr j \<Rightarrow>
          (case format_results parse is of
             Inl e \<Rightarrow> Inl e
           | Inr rs \<Rightarrow> Inr (\<lparr>result_id = item_id i, result_content = item_content i,
                              result_metadata = j, result_similarity = item_similarity i\<rparr> # rs)))"

text \<open>\<^verbatim>\<open>VectorDatabase.searchSimilar\<close>: its handler logs the error and throws it again.\<close>

definition searchSimilar ::
  "('e, 'j) env \<Rightarrow> string \<Rightarrow> ident \<Rightarrow> nat \<Rightarrow> real \<Rightarrow> error + 'j search_result list" where
  "searchSimilar env query pid limit similarityThreshold =
     (case generateEmbedding env query of
        Inl e \<Rightarrow> Inl e
      | Inr queryEmbedding \<Rightarrow>
          (case match_embeddings env queryEmbedding similarityThreshold limit pid of
             RpcThrows e \<Rightarrow> Inl e
           | RpcError msg \<Rightarrow> Inl (Error (''Error in similarity search: '' @ msg))
           | RpcData data \<Rightarrow> format_results (JSON_parse env) data))"

section \<open>The assistant (ai-assistant.js)\<close>

definition no_details :: property_details where
  "no_details = \<lparr>checkInTime = None, checkOutTime = None, wifiPassword = None,
     houseRules = None, location = None, nearbyAttractions = None,
     emergencyContacts = None, faqs = None, customNotes = None\<rparr>"

text \<open>
  \<^verbatim>\<open>AIAssistant.createSystemPrompt\<close>. The template literal spans 24 lines of the
  source; \<open>systemPromptLines\<close> holds them in order, each with its interpolations, and
  the prompt is these lines with a line feed between them.
\<close>

definition systemPromptLines :: "property \<Rightarrow> string \<Rightarrow> string list" where
  "systemPromptLines property relevantInfo =
     (let details = (case propertyDetails property of Some d \<Rightarrow> d | None \<Rightarrow> no_details)
      in
        [''You are an AI assistant for '' @ name property
           @ '', an Airbnb/rental property. Your name is Hostenly.'',
         [],
         ''Your role is to assist guests by providing accurate information about the property and answering their questions in a friendly, helpful manner.'',
         [],
         ''Here is specific information about the property that you can use to answer guest questions:'',
         [],
         relevantInfo,
         [],
         ''Additional property details:'',
         (if truthy (checkInTime details)
          then ''- Check-in time: '' @ str (checkInTime details) else []),
         (if truthy (checkOutTime details)
          then ''- Check-out time: '' @ str (checkOutTime details) else []),
         (if truthy (wifiPassword details)
          then ''- WiFi password: '' @ str (wifiPassword details) else []),
         (if truthy (location details)
          then ''- Location: '' @ str (location details) else []),
         [],
         ''Important guidelines:'',
         ''1. Only provide information that is contained in the property details above.'',
         ''2. If you don'' @ apos @ ''t know the answer to a question, politely say so and offer to relay the message to the host.'',
         ''3. Be conversational and friendly, but professional.'',
         ''4. Keep responses concise and to the point.'',
         ''5. Do not make up or hallucinate any information that is not provided.'',
         ''6. If asked about something not in your knowledge base, say: '' @ dquote
           @ ''I don'' @ apos @ ''t have that information available, but I can ask the host for you.''
           @ dquote,
         ''7. Never share the WiFi password unless specifically asked for it.'',
         [],
         ''Respond to the guest'' @ apos @ ''s latest message based on the conversation history and the information provided.''])"

definition createSystemPrompt :: "property \<Rightarrow> string \<Rightarrow> string" where
  "createSystemPrompt property relevantInfo = join nl (systemPromptLines property relevantInfo)"

definition apology :: string where
  "apology = ''I apologize, but I encountered an issue processing your request. Please try again later or contact the host directly.''"

text \<open>
  The body of the \<^verbatim>\<open>try\<close> block of \<^verbatim>\<open>AIAssistant.processMessage\<close>. It only reads
  the store, so it is a function of the state. \<^verbatim>\<open>choices[0]\<close> of a response without
  choices throws.
\<close>

definition processMessage_try ::
  "('e, 'j) env \<Rightarrow> ident \<Rightarrow> ident \<Rightarrow> string \<Rightarrow> world \<Rightarrow> error + string" where
  "processMessage_try env pid cid text w =
     (case fst (property_findUnique env AssistantPropertyFindUnique pid w) of
        Inl e \<Rightarrow> Inl e
      | Inr None \<Rightarrow> Inl (Error ''Property not found'')
      | Inr (Some property) \<Rightarrow>
     (case fst (message_findMany env AssistantMessageFindMany cid 10 w) of
        Inl e \<Rightarrow> Inl e
      | Inr messageHistory \<Rightarrow>
     (let chronologicalMessages = rev messageHistory in
      case searchSimilar env text pid 3 0.6 of
        Inl e \<Rightarrow> Inl e
      | Inr relevantInfo \<Rightarrow>
     (let formattedHistory =
            join nl (map (\<lambda>msg. (if isFromGuest msg then ''Guest'' else ''Host'')
                                 @ '': '' @ content msg) chronologicalMessages);
          formattedRelevantInfo = join nl (map result_content relevantInfo);
          systemPrompt = createSystemPrompt property formattedRelevantInfo
      in case createChatCompletion env
                \<lparr>chat_model = ''gpt-4'',
                 chat_messages =
                   [(''system'', systemPrompt),
                    (''user'', ''Conversation history:'' @ nl @ formattedHistory @ nl @ nl
                       @ ''Guest'' @ apos @ ''s latest message: '' @ text)],
                 max_tokens = 500, temperature = 0.7\<rparr> of
           Inl e \<Rightarrow> Inl e
         | Inr [] \<Rightarrow> Inl (TypeError ''Cannot read properties of undefined'')
         | Inr (c # cs) \<Rightarrow> Inr (trim c)))))"

text \<open>\<^verbatim>\<open>AIAssistant.processMessage\<close>: every error of the body becomes the apology.\<close>

definition processMessage ::
  "('e, 'j) env \<Rightarrow> ident \<Rightarrow> ident \<Rightarrow> string \<Rightarrow> string io" where
  "processMessage env pid cid text =
     (\<lambda>w. case processMessage_try env pid cid text w of
            Inl e \<Rightarrow> (Inr apology, w)
          | Inr reply \<Rightarrow> (Inr reply, w))"

section \<open>Loading the modules\<close>

text \<open>
  What a module binds or exports, as far as the pipeline looks at it: a class, an object
  constructed from a class, or a plain object with named fields. \<^verbatim>\<open>new\<close> constructs
  from a class only; applied to anything else it throws a TypeError that names the
  binding. The packages from outside the repository (express, prisma, twilio, openai,
  supabase) are taken to load and to construct.
\<close>

datatype js_value = JsClass string | JsInstance string | JsObject "(string \<times> js_value) list"

definition js_new :: "string \<Rightarrow> js_value \<Rightarrow> error + js_value" where
  "js_new binding v =
     (case v of
        JsClass c \<Rightarrow> Inr (JsInstance c)
      | JsInstance c \<Rightarrow> Inl (TypeError (binding @ '' is not a constructor''))
      | JsObject members \<Rightarrow> Inl (TypeError (binding @ '' is not a constructor'')))"

text \<open>
  \<^verbatim>\<open>const { f } = v\<close>: the field \<open>f\<close> of an object, \<^verbatim>\<open>undefined\<close> when it has none;
  \<^verbatim>\<open>new\<close> of \<^verbatim>\<open>undefined\<close> throws as well.
\<close>

definition js_field :: "string \<Rightarrow> js_value \<Rightarrow> js_value option" where
  "js_field f v = (case v of JsObject members \<Rightarrow> map_of members f | _ \<Rightarrow> None)"

definition js_new_field :: "string \<Rightarrow> js_value \<Rightarrow> error + js_value" where
  "js_new_field f v =
     (case js_field f v of
        None \<Rightarrow> Inl (TypeError (f @ '' is not a constructor''))
      | Some c \<Rightarrow> js_new f c)"

text \<open>
  Each module is the value of its \<^verbatim>\<open>module.exports\<close>, or the error thrown while it
  loads. \<^verbatim>\<open>openai.js\<close> exports \<^verbatim>\<open>{ openai, OpenAIEmbeddings }\<close>.
  \<^verbatim>\<open>vector-database.js\<close> (lines 1 to 191) takes \<^verbatim>\<open>OpenAIEmbeddings\<close> out of it and
  exports the class \<^verbatim>\<open>VectorDatabase\<close>, whose constructor constructs an
  \<^verbatim>\<open>OpenAIEmbeddings\<close>. \<^verbatim>\<open>ai-assistant.js\<close> requires both, constructs a
  \<^verbatim>\<open>VectorDatabase\<close> and exports the object \<^verbatim>\<open>{ AIAssistant }\<close>.
\<close>

definition openai_js :: "error + js_value" where
  "openai_js =
     Inr (JsObject [(''openai'', JsInstance ''OpenAIApi''),
                    (''OpenAIEmbeddings'', JsClass ''OpenAIEmbeddings'')])"

definition vector_database_js :: "error + js_value" where
  "vector_database_js =
     (case openai_js of
        Inl e \<Rightarrow> Inl e
      | Inr openai_exports \<Rightarrow> Inr (JsClass ''VectorDatabase''))"

definition new_VectorDatabase :: "js_value \<Rightarrow> error + js_value" where
  "new_VectorDatabase VectorDatabase =
     (case openai_js of
        Inl e \<Rightarrow> Inl e
      | Inr openai_exports \<Rightarrow>
          (case js_new_field ''OpenAIEmbeddings'' openai_exports of
             Inl e \<Rightarrow> Inl e
           | Inr openaiEmbeddings \<Rightarrow> js_new ''VectorDatabase'' VectorDatabase))"

definition ai_assistant_js :: "error + js_value" where
  "ai_assistant_js =
     (case openai_js of
        Inl e \<Rightarrow> Inl e
      | Inr openai_exports \<Rightarrow>
          (case vector_database_js of
             Inl e \<Rightarrow> Inl e
           | Inr VectorDatabase \<Rightarrow>
               (case new_VectorDatabase VectorDatabase of
                  Inl e \<Rightarrow> Inl e
                | Inr vectorDb \<Rightarrow> Inr (JsObject [(''AIAssistant'', JsClass ''AIAssistant'')]))))"

text \<open>
  \<^verbatim>\<open>twilio.js\<close>, lines 1 to 6: \<^verbatim>\<open>const AIAssistant = require('./ai-assistant')\<close> binds
  the whole exported object, and \<^verbatim>\<open>const aiAssistant = new AIAssistant()\<close> applies
  \<^verbatim>\<open>new\<close> to it. \<open>twilio_js\<close> is the module-level \<^verbatim>\<open>aiAssistant\<close> with which the class
  \<^verbatim>\<open>TwilioService\<close> is then defined, constructed and exported, or the error thrown
  before that.
\<close>

definition twilio_js :: "error + js_value" where
  "twilio_js =
     (case ai_assistant_js of
        Inl e \<Rightarrow> Inl e
      | Inr AIAssistant \<Rightarrow> js_new ''AIAssistant'' AIAssistant)"

section \<open>The pipeline (twilio.js, webhook.js)\<close>

datatype result = Success ident ident ident | Failure string

definition limit_notice :: string where
  "limit_notice = ''I apologize, but this property has reached its message limit. Please contact the host directly.''"

text \<open>
  \<^verbatim>\<open>aiAssistant.processMessage(...)\<close>: the method exists on an object constructed from
  the class \<^verbatim>\<open>AIAssistant\<close>; on any other value the call throws.
\<close>

definition call_processMessage ::
  "('e, 'j) env \<Rightarrow> js_value \<Rightarrow> ident \<Rightarrow> ident \<Rightarrow> string \<Rightarrow> string io" where
  "call_processMessage env aiAssistant pid cid text =
     (if aiAssistant = JsInstance ''AIAssistant'' then processMessage env pid cid text
      else throw_io (TypeError ''aiAssistant.processMessage is not a function''))"

text \<open>
  The body of \<^verbatim>\<open>TwilioService.processIncomingMessage\<close>, with the module-level
  \<^verbatim>\<open>aiAssistant\<close> that it refers to as a parameter. Its handler logs the error and
  throws it again. Reading \<^verbatim>\<open>messageCount\<close> of an absent user is a TypeError.
\<close>

definition processIncomingMessage_body ::
  "('e, 'j) env \<Rightarrow> js_value \<Rightarrow> messageData \<Rightarrow> result io" where
  "processIncomingMessage_body env aiAssistant data =
     (let guestPhone = replace_first ''whatsapp:'' [] (From data);
          propertyPhoneNumber = replace_first ''whatsapp:'' [] (To data)
      in
      bind_io (property_findFirst env PropertyFindFirst propertyPhoneNumber) (\<lambda>found.
      case found of
        None \<Rightarrow> return_io (Failure ''Property not found'')
      | Some property \<Rightarrow>
      bind_io (user_findUnique env UserFindUnique (userId property)) (\<lambda>account.
      case account of
        None \<Rightarrow> throw_io (TypeError ''Cannot read properties of null'')
      | Some user \<Rightarrow>
      if messageCount user \<ge> messageLimit user then
        bind_io (sendWhatsAppMessage env guestPhone limit_notice) (\<lambda>_.
        return_io (Failure ''Message limit reached''))
      else
      bind_io (conversation_findFirst env ConversationFindFirst
                 (property_id property) guestPhone) (\<lambda>existing.
      bind_io (case existing of
                 Some c \<Rightarrow> return_io c
               | None \<Rightarrow>
                   conversation_create env ConversationCreate (property_id property) guestPhone
                     (if truthy (ProfileName data) then str (ProfileName data) else ''Guest''))
        (\<lambda>conversation.
      bind_io (message_create env GuestMessageCreate
                 (conversation_id conversation) (Body data) True) (\<lambda>message.
      bind_io (user_increment env UserUpdateInbound (userId property)) (\<lambda>_.
      bind_io (call_processMessage env aiAssistant (property_id property)
                 (conversation_id conversation) (Body data)) (\<lambda>aiResponse.
      bind_io (message_create env ReplyMessageCreate
                 (conversation_id conversation) aiResponse False) (\<lambda>_.
      bind_io (user_increment env UserUpdateReply (userId property)) (\<lambda>_.
      bind_io (sendWhatsAppMessage env guestPhone aiResponse) (\<lambda>_.
      return_io (Success (property_id property) (conversation_id conversation)
                   (message_id message)))))))))))))"

text \<open>
  \<^verbatim>\<open>processIncomingMessage\<close> as the program reaches it, through
  \<^verbatim>\<open>require('../services/twilio')\<close>: when the module throws while it loads there is no
  service and no method, the error of the load is all that happens, and the state is
  untouched.
\<close>

definition processIncomingMessage :: "('e, 'j) env \<Rightarrow> messageData \<Rightarrow> result io" where
  "processIncomingMessage env data =
     (case twilio_js of
        Inl e \<Rightarrow> throw_io e
      | Inr aiAssistant \<Rightarrow> processIncomingMessage_body env aiAssistant data)"

text \<open>
  The handler of \<^verbatim>\<open>POST /twilio\<close>: the result of the pipeline is dropped, and an error
  it throws is logged; both branches answer with the same empty TwiML document.
\<close>

record http_reply =
  contentType :: string
  reply_body :: string

definition webhook_handler ::
  "('e, 'j) env \<Rightarrow> js_value \<Rightarrow> messageData \<Rightarrow> world \<Rightarrow> http_reply \<times> world" where
  "webhook_handler env aiAssistant body w =
     (case processIncomingMessage_body env aiAssistant body w of
        (Inr r, w') \<Rightarrow> (\<lparr>contentType = ''text/xml'', reply_body = ''<Response></Response>''\<rparr>, w')
      | (Inl e, w') \<Rightarrow> (\<lparr>contentType = ''text/xml'', reply_body = ''<Response></Response>''\<rparr>, w'))"

text \<open>
  \<^verbatim>\<open>webhook.js\<close> requires \<^verbatim>\<open>twilio.js\<close> in its line 3, before it defines the route.
  An inbound event is answered by the handler when the module has loaded; otherwise
  there is no route and no reply, only the error of the load.
\<close>

definition webhook_twilio ::
  "('e, 'j) env \<Rightarrow> messageData \<Rightarrow> world \<Rightarrow> (error + http_reply) \<times> world" where
  "webhook_twilio env body w =
     (case twilio_js of
        Inl e \<Rightarrow> (Inl e, w)
      | Inr aiAssistant \<Rightarrow>
          (case webhook_handler env aiAssistant body w of (reply, w') \<Rightarrow> (Inr reply, w')))"

section \<open>Messages written by the host (twilio.js, conversation.js)\<close>

text \<open>
  \<^verbatim>\<open>include: { property: true }\<close> joins the conversation with its property; the
  \<^verbatim>\<open>userId\<close> of an absent property is a TypeError.
\<close>

definition property_of :: "conversation \<Rightarrow> world \<Rightarrow> property option" where
  "property_of c w = find (\<lambda>p. property_id p = propertyId c) (properties w)"

text \<open>The body of \<^verbatim>\<open>TwilioService.sendManualMessage\<close>.\<close>

definition sendManualMessage_body :: "('e, 'j) env \<Rightarrow> ident \<Rightarrow> string \<Rightarrow> message io" where
  "sendManualMessage_body env cid text =
     bind_io (conversation_findUnique env ManualConversationFindUnique cid) (\<lambda>found.
     case found of
       None \<Rightarrow> throw_io (Error ''Conversation not found'')
     | Some conversation \<Rightarrow>
     bind_io (message_create env ManualMessageCreate cid text False) (\<lambda>message.
     bind_io (\<lambda>w. case property_of conversation w of
                     None \<Rightarrow> (Inl (TypeError ''Cannot read properties of null''), w)
                   | Some property \<Rightarrow>
                       user_increment env ManualUserUpdate (userId property) w) (\<lambda>_.
     bind_io (sendWhatsAppMessage env (guestPhoneNumber conversation) text) (\<lambda>_.
     return_io message))))"

text \<open>\<^verbatim>\<open>sendManualMessage\<close> as the program reaches it, through the module.\<close>

definition sendManualMessage :: "('e, 'j) env \<Rightarrow> ident \<Rightarrow> string \<Rightarrow> message io" where
  "sendManualMessage env cid text =
     (case twilio_js of
        Inl e \<Rightarrow> throw_io e
      | Inr aiAssistant \<Rightarrow> sendManualMessage_body env cid text)"

datatype http_response = JsonMessage nat string | JsonRow nat message

text \<open>
  \<^verbatim>\<open>POST /:id/messages\<close> of the conversation routes, after authentication has set
  \<^verbatim>\<open>req.userId\<close>. The content is absent when the body has none or one that is not a
  string. The route requires \<^verbatim>\<open>twilio.js\<close> inside its inner \<^verbatim>\<open>try\<close>: an error of
  that load, like an error of the transport, is logged and dropped. Every other error
  is answered with status 500.
\<close>

definition post_message ::
  "('e, 'j) env \<Rightarrow> ident \<Rightarrow> ident \<Rightarrow> string option \<Rightarrow> world \<Rightarrow> http_response \<times> world" where
  "post_message env reqUserId cid body w =
     (if \<not> truthy body \<or> trim (str body) = [] then
        (JsonMessage 400 ''Message content is required'', w)
      else
      case conversation_findUnique env RouteConversationFindUnique cid w of
        (Inl e, w1) \<Rightarrow> (JsonMessage 500 ''Server error while sending message'', w1)
      | (Inr None, w1) \<Rightarrow> (JsonMessage 404 ''Conversation not found'', w1)
      | (Inr (Some conversation), w1) \<Rightarrow>
      (case property_of conversation w1 of
         None \<Rightarrow> (JsonMessage 500 ''Server error while sending message'', w1)
       | Some property \<Rightarrow>
       if userId property \<noteq> reqUserId then (JsonMessage 403 ''Forbidden'', w1)
       else
       (case message_create env RouteMessageCreate cid (str body) False w1 of
          (Inl e, w2) \<Rightarrow> (JsonMessage 500 ''Server error while sending message'', w2)
        | (Inr message, w2) \<Rightarrow>
        (case conversation_touch env RouteConversationUpdate cid w2 of
           (Inl e, w3) \<Rightarrow> (JsonMessage 500 ''Server error while sending message'', w3)
         | (Inr u, w3) \<Rightarrow>
         (case twilio_js of
            Inl e \<Rightarrow> (JsonRow 201 message, w3)
          | Inr aiAssistant \<Rightarrow>
          (case sendMessage env (phoneNumber property) (guestPhoneNumber conversation)
                  (str body) w3 of
             (Inl e, w4) \<Rightarrow> (JsonRow 201 message, w4)
           | (Inr sid, w4) \<Rightarrow> (JsonRow 201 message, w4)))))))"

section \<open>Stages of the pipeline\<close>

text \<open>
  The body of \<^verbatim>\<open>processIncomingMessage\<close>, cut at the states of the pipeline:
  \<open>resolved\<close> is what follows the lookup of the property, \<open>admitted\<close> what follows
  the quota check, \<open>after_lookup\<close> what follows the lookup of the conversation, and
  \<open>exchange\<close> what follows its creation. Lemma \<open>body_stages\<close> shows that they
  compose to the body itself.
\<close>

definition exchange ::
  "('e, 'j) env \<Rightarrow> js_value \<Rightarrow> messageData \<Rightarrow> property \<Rightarrow> string \<Rightarrow> conversation
     \<Rightarrow> result io" where
  "exchange env aiAssistant data property guestPhone conversation =
      bind_io (message_create env GuestMessageCreate
                 (conversation_id conversation) (Body data) True) (\<lambda>message.
      bind_io (user_increment env UserUpdateInbound (userId property)) (\<lambda>_.
      bind_io (call_processMessage env aiAssistant (property_id property)
                 (conversation_id conversation) (Body data)) (\<lambda>aiResponse.
      bind_io (message_create env ReplyMessageCreate
                 (conversation_id conversation) aiResponse False) (\<lambda>_.
      bind_io (user_increment env UserUpdateReply (userId property)) (\<lambda>_.
      bind_io (sendWhatsAppMessage env guestPhone aiResponse) (\<lambda>_.
      return_io (Success (property_id property) (conversation_id conversation)
                   (message_id message))))))))"

definition after_lookup ::
  "('e, 'j) env \<Rightarrow> js_value \<Rightarrow> messageData \<Rightarrow> property \<Rightarrow> string \<Rightarrow> conversation option
     \<Rightarrow> result io" where
  "after_lookup env aiAssistant data property guestPhone existing =
      bind_io (case existing of
                 Some c \<Rightarrow> return_io c
               | None \<Rightarrow>
                   conversation_create env ConversationCreate (property_id property) guestPhone
                     (if truthy (ProfileName data) then str (ProfileName data) else ''Guest''))
        (\<lambda>conversation. exchange env aiAssistant data property guestPhone conversation)"

definition admitted ::
  "('e, 'j) env \<Rightarrow> js_value \<Rightarrow> messageData \<Rightarrow> property \<Rightarrow> string \<Rightarrow> result io" where
  "admitted env aiAssistant data property guestPhone =
      bind_io (conversation_findFirst env ConversationFindFirst
                 (property_id property) guestPhone)
        (\<lambda>existing. after_lookup env aiAssistant data property guestPhone existing)"

definition resolved ::
  "('e, 'j) env \<Rightarrow> js_value \<Rightarrow> messageData \<Rightarrow> property \<Rightarrow> string \<Rightarrow> result io" where
  "resolved env aiAssistant data property guestPhone =
      bind_io (user_findUnique env UserFindUnique (userId property)) (\<lambda>account.
      case account of
        None \<Rightarrow> throw_io (TypeError ''Cannot read properties of null'')
      | Some user \<Rightarrow>
      if messageCount user \<ge> messageLimit user then
        bind_io (sendWhatsAppMessage env guestPhone limit_notice) (\<lambda>_.
        return_io (Failure ''Message limit reached''))
      else admitted env aiAssistant data property guestPhone)"

section \<open>Two events for one guest\<close>

text \<open>
  Every call of the store is an \<^verbatim>\<open>await\<close>, where another event may run. The schedule
  looked at here: event A runs up to the answer of its lookup of the conversation and is
  suspended, event B runs to its end, event A resumes with the answer it had got.
  \<open>suspended_after_lookup\<close> is A's progress to that point (its calls so far only read
  the store), \<open>interleaved\<close> the results of A and B and the final state, when A gets
  that far.
\<close>

definition suspended_after_lookup ::
  "('e, 'j) env \<Rightarrow> messageData \<Rightarrow> world \<Rightarrow> (property \<times> string \<times> conversation option) option" where
  "suspended_after_lookup env data w =
     (let guestPhone = replace_first ''whatsapp:'' [] (From data);
          propertyPhoneNumber = replace_first ''whatsapp:'' [] (To data)
      in case fst (property_findFirst env PropertyFindFirst propertyPhoneNumber w) of
           Inr (Some property) \<Rightarrow>
             (case fst (user_findUnique env UserFindUnique (userId property) w) of
                Inr (Some user) \<Rightarrow>
                  if messageCount user \<ge> messageLimit user then None
                  else
                    (case fst (conversation_findFirst env ConversationFindFirst
                                 (property_id property) guestPhone w) of
                       Inr existing \<Rightarrow> Some (property, guestPhone, existing)
                     | Inl e \<Rightarrow> None)
              | _ \<Rightarrow> None)
         | _ \<Rightarrow> None)"

definition interleaved ::
  "('e, 'j) env \<Rightarrow> js_value \<Rightarrow> messageData \<Rightarrow> messageData \<Rightarrow> world
     \<Rightarrow> ((error + result) \<times> (error + result) \<times> world) option" where
  "interleaved env aiAssistant dataA dataB w =
     (case suspended_after_lookup env dataA w of
        None \<Rightarrow> None
      | Some (property, guestPhone, existing) \<Rightarrow>
          (case processIncomingMessage_body env aiAssistant dataB w of
             (resultB, w1) \<Rightarrow>
               (case after_lookup env aiAssistant dataA property guestPhone existing w1 of
                  (resultA, w2) \<Rightarrow> Some (resultA, resultB, w2))))"

text \<open>The rows of a property and guest address among the conversations.\<close>

definition rows_of :: "ident \<Rightarrow> string \<Rightarrow> world \<Rightarrow> conversation list" where
  "rows_of pid guest w =
     filter (\<lambda>c. propertyId c = pid \<and> guestPhoneNumber c = guest) (conversations w)"

section \<open>Observations\<close>

text \<open>
  Names for what the statements below speak about.
\<close>

text \<open>\<open>n\<close> quota units consumed on the account \<open>uid\<close>, the other accounts untouched.\<close>

definition bump :: "ident \<Rightarrow> int \<Rightarrow> user list \<Rightarrow> user list" where
  "bump uid n us = map (\<lambda>u. if user_id u = uid then u\<lparr>messageCount := messageCount u + n\<rparr> else u) us"

text \<open>The text that \<^verbatim>\<open>processMessage\<close> returns in a given state.\<close>

definition reply_of :: "('e, 'j) env \<Rightarrow> ident \<Rightarrow> ident \<Rightarrow> string \<Rightarrow> world \<Rightarrow> string" where
  "reply_of env pid cid text w =
     (case fst (processMessage env pid cid text w) of Inl e \<Rightarrow> [] | Inr reply \<Rightarrow> reply)"

text \<open>
  The rows that an exchange appends to the messages of state \<open>w\<close>, the message that is
  handed to the transport, the state in which the assistant is called, and the row that
  the creation of a conversation appends.
\<close>

definition guest_message :: "world \<Rightarrow> ident \<Rightarrow> messageData \<Rightarrow> message" where
  "guest_message w cid data =
     \<lparr>message_id = fresh_id (map message_id (messages w)),
      conversationId = cid, content = Body data, isFromGuest = True\<rparr>"

definition reply_message :: "world \<Rightarrow> ident \<Rightarrow> messageData \<Rightarrow> string \<Rightarrow> message" where
  "reply_message w cid data reply =
     \<lparr>message_id = fresh_id (map message_id (messages w @ [guest_message w cid data])),
      conversationId = cid, content = reply, isFromGuest = False\<rparr>"

definition outbound :: "('e, 'j) env \<Rightarrow> string \<Rightarrow> string \<Rightarrow> twilio_message" where
  "outbound env to body =
     \<lparr>msg_from = ''whatsapp:'' @ twilioPhoneNumber env, msg_to = whatsapp to, msg_body = body\<rparr>"

definition inbound_recorded :: "world \<Rightarrow> ident \<Rightarrow> ident \<Rightarrow> messageData \<Rightarrow> world" where
  "inbound_recorded w uid cid data =
     w\<lparr>messages := messages w @ [guest_message w cid data],
       users := bump uid 1 (users w)\<rparr>"

definition new_conversation :: "world \<Rightarrow> ident \<Rightarrow> string \<Rightarrow> messageData \<Rightarrow> conversation" where
  "new_conversation w pid guestPhone data =
     \<lparr>conversation_id = fresh_id (map conversation_id (conversations w)),
      propertyId = pid, guestPhoneNumber = guestPhone,
      guestName = (if truthy (ProfileName data) then str (ProfileName data) else ''Guest'')\<rparr>"


text \<open>
  The rule for one optional field of the prompt: the label and the value when the field is
  present and not empty, nothing otherwise.
\<close>

definition rendered_line :: "string \<Rightarrow> string option \<Rightarrow> string" where
  "rendered_line label v =
     (case v of None \<Rightarrow> [] | Some s \<Rightarrow> if s = [] then [] else label @ s)"

section \<open>Scenarios\<close>

text \<open>
  A store with one account and one property, providers that all answer, and an inbound
  message of a guest named Ann; variants with a provider down, with a guest without a
  display name, with a unique index in the store, with the account row missing, with a
  conversation already open, and with a house rule as the only detail.
\<close>

definition scenario_env :: "(nat, unit) env" where
  "scenario_env =
     \<lparr>twilioPhoneNumber = ''+14155238886'',
      twilio_create = (\<lambda>m. Inr ''SM1''),
      store_fails = (\<lambda>site. False),
      unique_pairs = False,
      createEmbedding = (\<lambda>text. Inr [0]),
      match_embeddings = (\<lambda>v threshold limit pid. RpcData []),
      JSON_parse = (\<lambda>text. Inr ()),
      createChatCompletion = (\<lambda>req. Inr ['' Check-in is at 3pm. ''])\<rparr>"

definition scenario_env_chat_down :: "(nat, unit) env" where
  "scenario_env_chat_down =
     scenario_env\<lparr>createChatCompletion := (\<lambda>req. Inl (ProviderError ''completion unavailable''))\<rparr>"


definition scenario_data :: messageData where
  "scenario_data =
     \<lparr>From = ''whatsapp:+15551234'', To = ''whatsapp:+15550001'', Body = ''Hi'',
      ProfileName = Some ''Ann''\<rparr>"

definition scenario_data_anonymous :: messageData where
  "scenario_data_anonymous = scenario_data\<lparr>ProfileName := None\<rparr>"

definition scenario_env_unique :: "(nat, unit) env" where
  "scenario_env_unique = scenario_env\<lparr>unique_pairs := True\<rparr>"

definition scenario_property :: property where
  "scenario_property =
     \<lparr>property_id = 1, name = ''Sea View'', phoneNumber = ''+15550001'', userId = 1,
      propertyDetails = None\<rparr>"

definition scenario_world :: "int \<Rightarrow> int \<Rightarrow> world" where
  "scenario_world count limit =
     \<lparr>users = [\<lparr>user_id = 1, messageCount = count, messageLimit = limit\<rparr>],
      properties = [scenario_property],
      conversations = [], messages = [], outbox = []\<rparr>"

definition orphan_world :: world where
  "orphan_world = (scenario_world 0 100)\<lparr>users := []\<rparr>"

definition host_world :: world where
  "host_world =
     (scenario_world 5 100)
       \<lparr>conversations := [\<lparr>conversation_id = 1, propertyId = 1,
                            guestPhoneNumber = ''+15551234'', guestName = ''Ann''\<rparr>]\<rparr>"

definition rules_details :: property_details where
  "rules_details = no_details\<lparr>houseRules := Some ''No smoking''\<rparr>"

section \<open>Calls unfolded\<close>

lemma body_stages:
  "processIncomingMessage_body env a data =
     bind_io (property_findFirst env PropertyFindFirst (replace_first ''whatsapp:'' [] (To data)))
       (\<lambda>found. case found of
          None \<Rightarrow> return_io (Failure ''Property not found'')
        | Some property \<Rightarrow> resolved env a data property (replace_first ''whatsapp:'' [] (From data)))"
  unfolding processIncomingMessage_body_def resolved_def admitted_def after_lookup_def
    exchange_def Let_def
  by (rule refl)

lemma bind_io_apply:
  "bind_io m f w = (case m w of (Inl e, w') \<Rightarrow> (Inl e, w') | (Inr x, w') \<Rightarrow> f x w')"
  by (simp add: bind_io_def)

lemma return_io_apply: "return_io x w = (Inr x, w)"
  by (simp add: return_io_def)

lemma throw_io_apply: "throw_io e w = (Inl e, w)"
  by (simp add: throw_io_def)

lemma store_read_apply:
  "store_read env site q w =
     (if store_fails env site then (Inl (StoreError site), w) else (Inr (q w), w))"
  by (simp add: store_read_def)

lemma store_write_apply:
  "store_write env site f w =
     (if store_fails env site then (Inl (StoreError site), w) else f w)"
  by (simp add: store_write_def)

lemmas io_apply = bind_io_apply return_io_apply throw_io_apply store_read_apply store_write_apply

lemmas store_defs = property_findFirst_def property_findUnique_def user_findUnique_def
  conversation_findFirst_def conversation_findUnique_def conversation_create_def
  conversation_touch_def message_create_def message_findMany_def user_increment_def

lemma sendWhatsAppMessage_apply:
  "sendWhatsAppMessage env to body w =
     (case twilio_create env (outbound env to body) of
        Inl e \<Rightarrow> (Inl e, w)
      | Inr sid \<Rightarrow> (Inr sid, w\<lparr>outbox := outbox w @ [outbound env to body]\<rparr>))"
  by (simp add: sendWhatsAppMessage_def outbound_def Let_def split: sum.splits)

lemma processMessage_total:
  "processMessage env pid cid text w = (Inr (reply_of env pid cid text w), w)"
  by (simp add: processMessage_def reply_of_def split: sum.splits)

lemma call_processMessage_apply:
  "call_processMessage env a pid cid text w =
     (if a = JsInstance ''AIAssistant'' then (Inr (reply_of env pid cid text w), w)
      else (Inl (TypeError ''aiAssistant.processMessage is not a function''), w))"
  by (simp add: call_processMessage_def processMessage_total throw_io_apply)

lemmas scenario_defs = scenario_env_def scenario_data_def scenario_property_def scenario_world_def

section \<open>What loading the modules does\<close>

text \<open>
  \<^verbatim>\<open>ai-assistant.js\<close> loads, and what it exports is an object, not the class.
\<close>

lemma ai_assistant_js_loads:
  "ai_assistant_js = Inr (JsObject [(''AIAssistant'', JsClass ''AIAssistant'')])"
  by (simp add: ai_assistant_js_def vector_database_js_def new_VectorDatabase_def openai_js_def
      js_new_def js_new_field_def js_field_def)

text \<open>
  So \<^verbatim>\<open>new AIAssistant()\<close> in \<^verbatim>\<open>twilio.js\<close> throws, and with it every way into the
  service: the pipeline, the webhook and the manual send.
\<close>

lemma twilio_js_throws:
  "twilio_js = Inl (TypeError ''AIAssistant is not a constructor'')"
  by (simp add: twilio_js_def ai_assistant_js_loads js_new_def)

lemma processIncomingMessage_throws:
  "processIncomingMessage env data w = (Inl (TypeError ''AIAssistant is not a constructor''), w)"
  by (simp add: processIncomingMessage_def twilio_js_throws throw_io_apply)

lemma webhook_twilio_throws:
  "webhook_twilio env data w = (Inl (TypeError ''AIAssistant is not a constructor''), w)"
  by (simp add: webhook_twilio_def twilio_js_throws)

lemma sendManualMessage_throws:
  "sendManualMessage env cid body w = (Inl (TypeError ''AIAssistant is not a constructor''), w)"
  by (simp add: sendManualMessage_def twilio_js_throws throw_io_apply)

text \<open>
  With the class itself bound, as \<^verbatim>\<open>const { AIAssistant } = require('./ai-assistant')\<close>
  would, the construction succeeds. The lemmas below about the bodies of the methods
  are stated for any \<open>aiAssistant\<close>, or for this one.
\<close>

lemma class_constructs:
  "js_new_field ''AIAssistant'' (JsObject [(''AIAssistant'', JsClass ''AIAssistant'')])
     = Inr (JsInstance ''AIAssistant'')"
  by (simp add: js_new_field_def js_field_def js_new_def)

section \<open>Trimming stops\<close>

text \<open>
  The number of steps given to the stripping is enough: after it the string starts with
  no white space.
\<close>

lemma strip_one_Nil: "[] \<notin> set wss \<Longrightarrow> strip_one wss [] = None"
  by (induction wss) auto

lemma strip_one_shorter:
  "strip_one wss s = Some rest \<Longrightarrow> [] \<notin> set wss \<Longrightarrow> length rest < length s"
  by (induction wss) (auto simp: prefix_def split: if_splits)

lemma strip_start_done:
  "[] \<notin> set wss \<Longrightarrow> length s \<le> n \<Longrightarrow> strip_one wss (strip_start wss n s) = None"
proof (induction n arbitrary: s)
  case 0
  then show ?case by (simp add: strip_one_Nil)
next
  case (Suc n)
  show ?case
  proof (cases "strip_one wss s")
    case None
    then show ?thesis by simp
  next
    case (Some rest)
    with Suc.prems strip_one_shorter [OF Some] have "length rest \<le> n" by simp
    with Suc.IH [OF Suc.prems(1)] Some show ?thesis by simp
  qed
qed

lemma trim_start_complete:
  "strip_one white_space (strip_start white_space (length s) s) = None"
  by (rule strip_start_done) (simp_all add: white_space_def)

section \<open>Lists of rows\<close>

lemma bump_bump: "bump uid 1 (bump uid 1 us) = bump uid 2 us"
  by (induction us) (simp_all add: bump_def)

lemma list_ex_bump: "list_ex (\<lambda>u. user_id u = uid) (bump uid n us) = list_ex (\<lambda>u. user_id u = uid) us"
  by (induction us) (simp_all add: bump_def)

lemma find_Some_list_ex: "find P xs = Some x \<Longrightarrow> list_ex P xs"
  by (induction xs) (auto split: if_splits)

lemma find_None_list_ex: "find P xs = None \<Longrightarrow> \<not> list_ex P xs"
  by (induction xs) (auto split: if_splits)

lemma find_bump:
  "find (\<lambda>u. user_id u = uid) us = Some u \<Longrightarrow>
   find (\<lambda>u. user_id u = uid) (bump uid n us) = Some (u\<lparr>messageCount := messageCount u + n\<rparr>)"
  by (induction us) (auto simp: bump_def split: if_splits)

section \<open>The body of the pipeline, stage by stage\<close>

subsection \<open>The exchange\<close>

lemma exchange_frame:
  assumes "exchange env a data property guestPhone conversation w = (r, w')"
  shows "conversations w' = conversations w \<and> properties w' = properties w"
  using assms
  by (auto simp: exchange_def io_apply store_defs call_processMessage_apply
      sendWhatsAppMessage_apply Let_def
      split: sum.splits if_splits)

text \<open>
  When the exchange returns, the assistant was a constructed one, two units were
  consumed, and the reply is what the assistant returned in the state in which the guest
  message was stored and the first unit consumed.
\<close>

lemma exchange_success:
  assumes "exchange env a data property guestPhone conversation w = (Inr res, w')"
  shows "a = JsInstance ''AIAssistant''
    \<and> res = Success (property_id property) (conversation_id conversation)
                 (fresh_id (map message_id (messages w)))
    \<and> list_ex (\<lambda>u. user_id u = userId property) (users w)
    \<and> users w' = bump (userId property) 2 (users w)
    \<and> messages w' = messages w @
         [guest_message w (conversation_id conversation) data,
          reply_message w (conversation_id conversation) data
            (reply_of env (property_id property) (conversation_id conversation) (Body data)
               (inbound_recorded w (userId property) (conversation_id conversation) data))]
    \<and> outbox w' = outbox w @
         [outbound env guestPhone
            (reply_of env (property_id property) (conversation_id conversation) (Body data)
               (inbound_recorded w (userId property) (conversation_id conversation) data))]"
  using assms
  by (auto simp: exchange_def io_apply store_defs call_processMessage_apply
      sendWhatsAppMessage_apply Let_def
      bump_bump list_ex_bump bump_def[symmetric] guest_message_def reply_message_def inbound_recorded_def
      split: sum.splits if_splits)

lemma exchange_runs:
  assumes "\<forall>site. \<not> store_fails env site"
    and "\<forall>m. \<exists>sid. twilio_create env m = Inr sid"
    and "list_ex (\<lambda>u. user_id u = userId property) (users w)"
  shows "\<exists>w'. exchange env (JsInstance ''AIAssistant'') data property guestPhone conversation w =
           (Inr (Success (property_id property) (conversation_id conversation)
                   (fresh_id (map message_id (messages w)))), w')"
proof -
  let ?w1 = "inbound_recorded w (userId property) (conversation_id conversation) data"
  let ?reply = "reply_of env (property_id property) (conversation_id conversation) (Body data) ?w1"
  obtain sid where sid: "twilio_create env (outbound env guestPhone ?reply) = Inr sid"
    using assms(2) by blast
  show ?thesis
    using assms(1,3) sid
    by (simp add: exchange_def io_apply store_defs call_processMessage_apply
      sendWhatsAppMessage_apply Let_def
      list_ex_bump bump_def[symmetric] guest_message_def inbound_recorded_def)
qed

text \<open>
  The order of the steps. When the update of the count fails after the guest message
  was stored, the message is there and no unit is consumed; when the store fails at the
  reply, the guest message is there and exactly one unit is consumed.
\<close>

lemma exchange_stops_before_first_unit:
  assumes "\<not> store_fails env GuestMessageCreate"
    and "store_fails env UserUpdateInbound"
  shows "exchange env a data property guestPhone conversation w =
           (Inl (StoreError UserUpdateInbound),
            w\<lparr>messages := messages w @ [guest_message w (conversation_id conversation) data]\<rparr>)"
  using assms
  by (simp add: exchange_def io_apply store_defs guest_message_def Let_def)

lemma exchange_stops_before_reply:
  assumes "\<not> store_fails env GuestMessageCreate"
    and "\<not> store_fails env UserUpdateInbound"
    and "store_fails env ReplyMessageCreate"
    and "list_ex (\<lambda>u. user_id u = userId property) (users w)"
  shows "exchange env (JsInstance ''AIAssistant'') data property guestPhone conversation w =
           (Inl (StoreError ReplyMessageCreate),
            inbound_recorded w (userId property) (conversation_id conversation) data)"
  using assms
  by (simp add: exchange_def io_apply store_defs call_processMessage_apply
      guest_message_def inbound_recorded_def bump_def Let_def)

subsection \<open>Lookup or creation of the conversation\<close>

lemma after_lookup_cases:
  assumes "after_lookup env a data property guestPhone existing w = (r, w')"
  obtains (existing) c where "existing = Some c"
        "exchange env a data property guestPhone c w = (r, w')"
    | (create_failed) e where "existing = None" "r = Inl e" "w' = w"
    | (created) "existing = None"
        "exchange env a data property guestPhone (new_conversation w (property_id property) guestPhone data)
           (w\<lparr>conversations := conversations w
                @ [new_conversation w (property_id property) guestPhone data]\<rparr>) = (r, w')"
  using assms
  by (auto simp: after_lookup_def io_apply store_defs new_conversation_def Let_def
      split: if_splits option.splits)

lemma admitted_cases:
  assumes "admitted env a data property guestPhone w = (r, w')"
  obtains (store_down) e where "r = Inl e" "w' = w"
    | (existing) c where
        "find (\<lambda>c. propertyId c = property_id property \<and> guestPhoneNumber c = guestPhone)
           (conversations w) = Some c"
        "exchange env a data property guestPhone c w = (r, w')"
    | (created)
        "find (\<lambda>c. propertyId c = property_id property \<and> guestPhoneNumber c = guestPhone)
           (conversations w) = None"
        "exchange env a data property guestPhone (new_conversation w (property_id property) guestPhone data)
           (w\<lparr>conversations := conversations w
                @ [new_conversation w (property_id property) guestPhone data]\<rparr>) = (r, w')"
proof (cases "store_fails env ConversationFindFirst")
  case True
  with assms have "r = Inl (StoreError ConversationFindFirst) \<and> w' = w"
    by (simp add: admitted_def io_apply store_defs)
  then show ?thesis using store_down by blast
next
  case False
  let ?found = "find (\<lambda>c. propertyId c = property_id property \<and> guestPhoneNumber c = guestPhone)
                  (conversations w)"
  from assms False
  have resumed: "after_lookup env a data property guestPhone ?found w = (r, w')"
    by (simp add: admitted_def io_apply store_defs)
  then show ?thesis
  proof (cases rule: after_lookup_cases)
    case (existing c)
    then show ?thesis using that(2) by blast
  next
    case (create_failed e)
    then show ?thesis using store_down by blast
  next
    case created
    then show ?thesis using that(3) by blast
  qed
qed

subsection \<open>The quota gate and the resolution of the property\<close>

lemma resolved_cases:
  assumes "resolved env a data property guestPhone w = (r, w')"
  obtains (store_down) e where "r = Inl e" "w' = w"
    | (rejected) user where
        "find (\<lambda>u. user_id u = userId property) (users w) = Some user"
        "messageLimit user \<le> messageCount user"
        "r = Inr (Failure ''Message limit reached'')"
        "w' = w\<lparr>outbox := outbox w @ [outbound env guestPhone limit_notice]\<rparr>"
    | (admitted) user where
        "find (\<lambda>u. user_id u = userId property) (users w) = Some user"
        "messageCount user < messageLimit user"
        "admitted env a data property guestPhone w = (r, w')"
proof (cases "store_fails env UserFindUnique")
  case True
  with assms have "r = Inl (StoreError UserFindUnique) \<and> w' = w"
    by (simp add: resolved_def io_apply store_defs)
  then show ?thesis using store_down by blast
next
  case up: False
  show ?thesis
  proof (cases "find (\<lambda>u. user_id u = userId property) (users w)")
    case None
    with assms up have "r = Inl (TypeError ''Cannot read properties of null'') \<and> w' = w"
      by (simp add: resolved_def io_apply store_defs)
    then show ?thesis using store_down by blast
  next
    case (Some user)
    show ?thesis
    proof (cases "messageLimit user \<le> messageCount user")
      case False
      with assms up Some have "admitted env a data property guestPhone w = (r, w')"
        by (simp add: resolved_def io_apply store_defs)
      then show ?thesis using admitted Some False by simp
    next
      case True
      show ?thesis
      proof (cases "twilio_create env (outbound env guestPhone limit_notice)")
        case (Inl e)
        with assms up Some True have "r = Inl e \<and> w' = w"
          by (simp add: resolved_def io_apply store_defs sendWhatsAppMessage_apply)
        then show ?thesis using store_down by blast
      next
        case (Inr sid)
        with assms up Some True
        have "r = Inr (Failure ''Message limit reached'')
            \<and> w' = w\<lparr>outbox := outbox w @ [outbound env guestPhone limit_notice]\<rparr>"
          by (simp add: resolved_def io_apply store_defs sendWhatsAppMessage_apply)
        then show ?thesis using rejected Some True by blast
      qed
    qed
  qed
qed

lemma body_cases:
  assumes "processIncomingMessage_body env a data w = (r, w')"
  obtains (store_down) e where "r = Inl e" "w' = w"
    | (not_found)
        "find (\<lambda>p. phoneNumber p = replace_first ''whatsapp:'' [] (To data)) (properties w) = None"
        "r = Inr (Failure ''Property not found'')" "w' = w"
    | (found) property where
        "find (\<lambda>p. phoneNumber p = replace_first ''whatsapp:'' [] (To data)) (properties w)
           = Some property"
        "resolved env a data property (replace_first ''whatsapp:'' [] (From data)) w = (r, w')"
proof (cases "store_fails env PropertyFindFirst")
  case True
  with assms have "r = Inl (StoreError PropertyFindFirst) \<and> w' = w"
    by (simp add: body_stages io_apply store_defs)
  then show ?thesis using store_down by blast
next
  case up: False
  show ?thesis
  proof (cases "find (\<lambda>p. phoneNumber p = replace_first ''whatsapp:'' [] (To data)) (properties w)")
    case None
    with assms up have "r = Inr (Failure ''Property not found'') \<and> w' = w"
      by (simp add: body_stages io_apply store_defs)
    then show ?thesis using not_found None by blast
  next
    case (Some property)
    with assms up
    have "resolved env a data property (replace_first ''whatsapp:'' [] (From data)) w = (r, w')"
      by (simp add: body_stages io_apply store_defs)
    then show ?thesis using found Some by blast
  qed
qed

subsection \<open>Outcomes of the whole body\<close>

lemma body_success:
  assumes "processIncomingMessage_body env a data w = (Inr (Success p c m), w')"
  shows "\<exists>property user w0.
      find (\<lambda>p. phoneNumber p = replace_first ''whatsapp:'' [] (To data)) (properties w) = Some property
    \<and> find (\<lambda>u. user_id u = userId property) (users w) = Some user
    \<and> messageCount user < messageLimit user
    \<and> p = property_id property
    \<and> m = fresh_id (map message_id (messages w))
    \<and> users w' = bump (userId property) 2 (users w)
    \<and> messages w' = messages w @
         [guest_message w c data,
          reply_message w c data (reply_of env p c (Body data) w0)]
    \<and> outbox w' = outbox w @
         [outbound env (replace_first ''whatsapp:'' [] (From data)) (reply_of env p c (Body data) w0)]"
  using assms
proof (cases rule: body_cases)
  case (found property)
  from found(2) show ?thesis
  proof (cases rule: resolved_cases)
    case (admitted user)
    from admitted(3) show ?thesis
    proof (cases rule: admitted_cases)
      case (existing conv)
      from exchange_success [OF existing(2)] found(1) admitted(1,2)
      show ?thesis by auto
    next
      case created
      from exchange_success [OF created(2)] found(1) admitted(1,2)
      show ?thesis by (auto simp: guest_message_def reply_message_def)
    qed simp_all
  qed simp_all
qed simp_all

lemma body_rejected:
  assumes "processIncomingMessage_body env a data w = (Inr (Failure e), w')"
  shows "users w' = users w \<and> conversations w' = conversations w \<and> messages w' = messages w"
  using assms
proof (cases rule: body_cases)
  case (found property)
  from found(2) show ?thesis
  proof (cases rule: resolved_cases)
    case (admitted user)
    from admitted(3) show ?thesis
    proof (cases rule: admitted_cases)
      case (existing conv)
      from exchange_success [OF existing(2)]
      show ?thesis by simp
    next
      case created
      from exchange_success [OF created(2)]
      show ?thesis by simp
    qed simp_all
  qed simp_all
qed simp_all

lemma body_runs:
  assumes "\<forall>site. \<not> store_fails env site"
    and "\<forall>m. \<exists>sid. twilio_create env m = Inr sid"
    and "find (\<lambda>p. phoneNumber p = replace_first ''whatsapp:'' [] (To data)) (properties w) = Some property"
    and "find (\<lambda>u. user_id u = userId property) (users w) = Some user"
    and "messageCount user < messageLimit user"
  shows "\<exists>c w'. processIncomingMessage_body env (JsInstance ''AIAssistant'') data w =
           (Inr (Success (property_id property) c (fresh_id (map message_id (messages w)))), w')"
proof -
  let ?a = "JsInstance ''AIAssistant''"
  let ?guest = "replace_first ''whatsapp:'' [] (From data)"
  have ex: "list_ex (\<lambda>u. user_id u = userId property) (users w)"
    using assms(4) by (rule find_Some_list_ex)
  have run: "processIncomingMessage_body env ?a data w = admitted env ?a data property ?guest w"
    using assms(1,3,4,5)
    by (simp add: body_stages resolved_def io_apply store_defs)
  show ?thesis
  proof (cases "find (\<lambda>c. propertyId c = property_id property \<and> guestPhoneNumber c = ?guest)
                  (conversations w)")
    case None
    let ?c = "new_conversation w (property_id property) ?guest data"
    let ?w0 = "w\<lparr>conversations := conversations w @ [?c]\<rparr>"
    have "list_ex (\<lambda>u. user_id u = userId property) (users ?w0)" using ex by simp
    from exchange_runs [OF assms(1,2) this, of data ?guest ?c]
    obtain w' where "exchange env ?a data property ?guest ?c ?w0 =
        (Inr (Success (property_id property) (conversation_id ?c)
                (fresh_id (map message_id (messages ?w0)))), w')" by blast
    moreover have "admitted env ?a data property ?guest w = exchange env ?a data property ?guest ?c ?w0"
      using assms(1) None find_None_list_ex [OF None]
      by (simp add: admitted_def after_lookup_def io_apply store_defs new_conversation_def Let_def)
    ultimately show ?thesis using run by simp
  next
    case (Some c)
    from exchange_runs [OF assms(1,2) ex, of data ?guest c]
    obtain w' where "exchange env ?a data property ?guest c w =
        (Inr (Success (property_id property) (conversation_id c)
                (fresh_id (map message_id (messages w)))), w')" by blast
    moreover have "admitted env ?a data property ?guest w = exchange env ?a data property ?guest c w"
      using assms(1) Some
      by (simp add: admitted_def after_lookup_def io_apply store_defs)
    ultimately show ?thesis using run by simp
  qed
qed

lemma scenario_A_body_run:
  "processIncomingMessage_body scenario_env (JsInstance ''AIAssistant'') scenario_data
       (scenario_world 99 100) =
     (Inr (Success 1 1 1),
      \<lparr>users = [\<lparr>user_id = 1, messageCount = 101, messageLimit = 100\<rparr>],
       properties = [scenario_property],
       conversations = [\<lparr>conversation_id = 1, propertyId = 1, guestPhoneNumber = ''+15551234'',
                         guestName = ''Ann''\<rparr>],
       messages = [\<lparr>message_id = 1, conversationId = 1, content = ''Hi'', isFromGuest = True\<rparr>,
                   \<lparr>message_id = 2, conversationId = 1, content = ''Check-in is at 3pm.'',
                    isFromGuest = False\<rparr>],
       outbox = [\<lparr>msg_from = ''whatsapp:+14155238886'', msg_to = ''whatsapp:+15551234'',
                  msg_body = ''Check-in is at 3pm.''\<rparr>]\<rparr>)"
  by code_simp

subsection \<open>The fallback reply\<close>



lemma reply_of_chat_fails:
  assumes "\<forall>req. \<exists>e. createChatCompletion env req = Inl e"
  shows "reply_of env pid cid text w = apology"
proof -
  have ne: "createChatCompletion env req \<noteq> Inr r" for req r
    using assms by (metis Inl_Inr_False)
  show ?thesis
    by (simp add: reply_of_def processMessage_def processMessage_try_def Let_def ne
        split: sum.splits option.splits list.splits)
qed

text \<open>
  The body with a constructed assistant whose reply is always the apology: an admitted
  message is answered with it, stored and dispatched.
\<close>

lemma body_fallback_exchange:
  assumes "\<forall>cid w0. reply_of env (property_id property) cid (Body data) w0 = apology"
    and "\<forall>site. \<not> store_fails env site"
    and "\<forall>m. \<exists>sid. twilio_create env m = Inr sid"
    and "find (\<lambda>p. phoneNumber p = replace_first ''whatsapp:'' [] (To data)) (properties w) = Some property"
    and "find (\<lambda>u. user_id u = userId property) (users w) = Some user"
    and "messageCount user < messageLimit user"
  shows "\<exists>c m w'. processIncomingMessage_body env (JsInstance ''AIAssistant'') data w
                     = (Inr (Success (property_id property) c m), w')
      \<and> users w' = bump (userId property) 2 (users w)
      \<and> messages w' = messages w @ [guest_message w c data, reply_message w c data apology]
      \<and> outbox w' = outbox w @ [outbound env (replace_first ''whatsapp:'' [] (From data)) apology]"
proof -
  from body_runs [OF assms(2-6)] obtain c w' where
    run: "processIncomingMessage_body env (JsInstance ''AIAssistant'') data w =
      (Inr (Success (property_id property) c (fresh_id (map message_id (messages w)))), w')"
    by blast
  from body_success [OF run] assms(4) assms(1)
  have "users w' = bump (userId property) 2 (users w)
      \<and> messages w' = messages w @ [guest_message w c data, reply_message w c data apology]
      \<and> outbox w' = outbox w @ [outbound env (replace_first ''whatsapp:'' [] (From data)) apology]"
    by auto
  with run show ?thesis by blast
qed

section \<open>Retrieval failure\<close>




section \<open>Quota units\<close>

text \<open>
  The body of the pipeline, for any assistant. When it returns success, the event was
  admitted (\<open>messageCount < messageLimit\<close>), the owner's count has grown by exactly two and
  no other user has changed, the guest message and the reply were appended to the
  messages, and the reply was dispatched. When it returns a rejection (property not
  found, or limit reached), users, conversations and messages are unchanged.
\<close>

lemma body_quota_units:
  assumes "processIncomingMessage_body env a data w = (Inr res, w')"
  shows "case res of
      Success p c m \<Rightarrow>
        (\<exists>property user.
            find (\<lambda>p. phoneNumber p = replace_first ''whatsapp:'' [] (To data)) (properties w)
              = Some property
          \<and> find (\<lambda>u. user_id u = userId property) (users w) = Some user
          \<and> messageCount user < messageLimit user
          \<and> users w' = map (\<lambda>u. if user_id u = userId property
                                   then u\<lparr>messageCount := messageCount u + 2\<rparr> else u) (users w)
          \<and> find (\<lambda>u. user_id u = userId property) (users w')
              = Some (user\<lparr>messageCount := messageCount user + 2\<rparr>)
          \<and> (\<exists>reply. messages w' = messages w @
                [\<lparr>message_id = m, conversationId = c, content = Body data, isFromGuest = True\<rparr>,
                 \<lparr>message_id = fresh_id (map message_id (messages w) @ [m]), conversationId = c,
                  content = reply, isFromGuest = False\<rparr>]
              \<and> outbox w' = outbox w @
                [\<lparr>msg_from = ''whatsapp:'' @ twilioPhoneNumber env,
                  msg_to = whatsapp (replace_first ''whatsapp:'' [] (From data)),
                  msg_body = reply\<rparr>]))
    | Failure e \<Rightarrow>
        users w' = users w \<and> conversations w' = conversations w \<and> messages w' = messages w"
proof (cases res)
  case (Failure e)
  with assms body_rejected show ?thesis by simp
next
  case (Success p c m)
  from body_success [OF assms [unfolded Success]]
  obtain property user w0 where facts:
    "find (\<lambda>p. phoneNumber p = replace_first ''whatsapp:'' [] (To data)) (properties w) = Some property"
    "find (\<lambda>u. user_id u = userId property) (users w) = Some user"
    "messageCount user < messageLimit user"
    "m = fresh_id (map message_id (messages w))"
    "users w' = bump (userId property) 2 (users w)"
    "messages w' = messages w @
         [guest_message w c data, reply_message w c data (reply_of env p c (Body data) w0)]"
    "outbox w' = outbox w @
         [outbound env (replace_first ''whatsapp:'' [] (From data)) (reply_of env p c (Body data) w0)]"
    by blast
  from find_bump [OF facts(2), of 2] facts(5)
  have after: "find (\<lambda>u. user_id u = userId property) (users w')
                 = Some (user\<lparr>messageCount := messageCount user + 2\<rparr>)"
    by simp
  show ?thesis
    unfolding Success result.case
    apply (rule exI [of _ property], rule exI [of _ user])
    using facts after
    by (simp add: bump_def guest_message_def reply_message_def outbound_def)
qed

text \<open>
  \<^bold>\<open>C2.\<close> The code at scenario A, an inbound message for an account with
  \<open>messageCount = 99\<close> and \<open>messageLimit = 100\<close>: the module of the pipeline throws while
  it loads, so nothing is admitted. The TypeError is all that happens: the count stays
  99, no message is stored and nothing is dispatched.
\<close>

theorem scenario_A_not_processed:
  "processIncomingMessage scenario_env scenario_data (scenario_world 99 100)
     = (Inl (TypeError ''AIAssistant is not a constructor''), scenario_world 99 100)
   \<and> users (snd (processIncomingMessage scenario_env scenario_data (scenario_world 99 100)))
       = [\<lparr>user_id = 1, messageCount = 99, messageLimit = 100\<rparr>]
   \<and> messages (snd (processIncomingMessage scenario_env scenario_data (scenario_world 99 100))) = []
   \<and> outbox (snd (processIncomingMessage scenario_env scenario_data (scenario_world 99 100))) = []"
  by (simp add: processIncomingMessage_throws scenario_world_def)

section \<open>The quota gate\<close>

text \<open>
  The body of the pipeline, for any assistant. When the owner of the resolved property
  has \<open>messageCount \<ge> messageLimit\<close>, it hands the fixed limit notice for the guest to
  the transport and stops: if the transport accepts it, the result is
  \<open>Message limit reached\<close> and the notice is the only change of the state; if the
  transport refuses, its error is thrown. In both cases users, conversations and messages
  are unchanged.
\<close>

lemma body_quota_exceeded:
  assumes "\<not> store_fails env PropertyFindFirst"
    and "\<not> store_fails env UserFindUnique"
    and "find (\<lambda>p. phoneNumber p = replace_first ''whatsapp:'' [] (To data)) (properties w) = Some property"
    and "find (\<lambda>u. user_id u = userId property) (users w) = Some user"
    and "messageLimit user \<le> messageCount user"
  shows "(case twilio_create env
               \<lparr>msg_from = ''whatsapp:'' @ twilioPhoneNumber env,
                msg_to = whatsapp (replace_first ''whatsapp:'' [] (From data)),
                msg_body = limit_notice\<rparr> of
            Inr sid \<Rightarrow>
              processIncomingMessage_body env a data w =
                (Inr (Failure ''Message limit reached''),
                 w\<lparr>outbox := outbox w @
                     [\<lparr>msg_from = ''whatsapp:'' @ twilioPhoneNumber env,
                       msg_to = whatsapp (replace_first ''whatsapp:'' [] (From data)),
                       msg_body = limit_notice\<rparr>]\<rparr>)
          | Inl e \<Rightarrow> processIncomingMessage_body env a data w = (Inl e, w))
       \<and> users (snd (processIncomingMessage_body env a data w)) = users w
       \<and> conversations (snd (processIncomingMessage_body env a data w)) = conversations w
       \<and> messages (snd (processIncomingMessage_body env a data w)) = messages w"
  using assms
  by (simp add: body_stages resolved_def io_apply store_defs
      sendWhatsAppMessage_apply outbound_def split: sum.splits)

text \<open>
  \<^bold>\<open>C4.\<close> The code at scenario B, an inbound message for an account with
  \<open>messageCount = 100\<close> and \<open>messageLimit = 100\<close>: the module throws while it loads, the
  quota is never looked at, and no limit notice is handed to the transport. The webhook
  has no route to answer with.
\<close>

theorem over_limit_not_notified:
  "processIncomingMessage scenario_env scenario_data (scenario_world 100 100)
     = (Inl (TypeError ''AIAssistant is not a constructor''), scenario_world 100 100)
   \<and> outbox (snd (processIncomingMessage scenario_env scenario_data (scenario_world 100 100))) = []
   \<and> webhook_twilio scenario_env scenario_data (scenario_world 100 100)
     = (Inl (TypeError ''AIAssistant is not a constructor''), scenario_world 100 100)"
  by (simp add: processIncomingMessage_throws webhook_twilio_throws scenario_world_def)

text \<open>
  In the body, a limit of zero rejects every inbound message of an account whose count
  is not negative.
\<close>

lemma zero_limit_rejected:
  assumes "\<not> store_fails env PropertyFindFirst"
    and "\<not> store_fails env UserFindUnique"
    and "find (\<lambda>p. phoneNumber p = replace_first ''whatsapp:'' [] (To data)) (properties w) = Some property"
    and "find (\<lambda>u. user_id u = userId property) (users w) = Some user"
    and "messageLimit user = 0" and "0 \<le> messageCount user"
    and "twilio_create env (outbound env (replace_first ''whatsapp:'' [] (From data)) limit_notice) = Inr sid"
  shows "processIncomingMessage_body env a data w =
           (Inr (Failure ''Message limit reached''),
            w\<lparr>outbox := outbox w
                 @ [outbound env (replace_first ''whatsapp:'' [] (From data)) limit_notice]\<rparr>)"
  using assms
  by (simp add: body_stages resolved_def io_apply store_defs
      sendWhatsAppMessage_apply)

text \<open>
  In the body, an inbound event for a property whose account has no row always ends in
  an error and leaves the state, the outbox included, as it was.
\<close>

lemma missing_account_never_notified:
  assumes "processIncomingMessage_body env a data w = (r, w')"
    and "find (\<lambda>p. phoneNumber p = replace_first ''whatsapp:'' [] (To data)) (properties w) = Some property"
    and "find (\<lambda>u. user_id u = userId property) (users w) = None"
  shows "w' = w \<and> (\<exists>e. r = Inl e)"
  using assms
  by (auto simp: body_stages resolved_def io_apply store_defs split: if_splits)

text \<open>
  \<^bold>\<open>C5.\<close> The code at an inbound event whose property is owned by an account
  without a row. In the body, whatever assistant is bound, reading \<open>messageCount\<close> of
  the absent user throws a TypeError: nothing is written and the handler of the webhook
  acknowledges, but no notice is handed to the transport. As the program is written the
  module throws before that, and no notice is handed to the transport either.
\<close>

theorem missing_account_throws:
  "(\<forall>a. processIncomingMessage_body scenario_env a scenario_data orphan_world
          = (Inl (TypeError ''Cannot read properties of null''), orphan_world))
   \<and> outbox orphan_world = []
   \<and> (\<forall>a. webhook_handler scenario_env a scenario_data orphan_world
          = (\<lparr>contentType = ''text/xml'', reply_body = ''<Response></Response>''\<rparr>,
             orphan_world))
   \<and> processIncomingMessage scenario_env scenario_data orphan_world
     = (Inl (TypeError ''AIAssistant is not a constructor''), orphan_world)"
  by (simp add: scenario_defs orphan_world_def webhook_handler_def body_stages resolved_def
      io_apply store_defs processIncomingMessage_throws)

section \<open>Completion failure\<close>

text \<open>
  When the completion provider fails on every request, the assistant returns the fixed
  apology and never throws. In the body with a constructed assistant, an admitted
  message then ends in success: the guest message and the apology (as a message that is
  not from the guest) are appended to the messages, the owner's count has grown by two,
  and the apology is dispatched to the guest.
\<close>

lemma body_completion_failure:
  assumes "\<forall>req. \<exists>e. createChatCompletion env req = Inl e"
    and "\<forall>site. \<not> store_fails env site"
    and "\<forall>m. \<exists>sid. twilio_create env m = Inr sid"
    and "find (\<lambda>p. phoneNumber p = replace_first ''whatsapp:'' [] (To data)) (properties w) = Some property"
    and "find (\<lambda>u. user_id u = userId property) (users w) = Some user"
    and "messageCount user < messageLimit user"
  shows "(\<forall>pid cid text w0. processMessage env pid cid text w0 = (Inr apology, w0))
     \<and> (\<exists>c m w'. processIncomingMessage_body env (JsInstance ''AIAssistant'') data w
                    = (Inr (Success (property_id property) c m), w')
      \<and> users w' = map (\<lambda>u. if user_id u = userId property
                               then u\<lparr>messageCount := messageCount u + 2\<rparr> else u) (users w)
      \<and> messages w' = messages w @
           [\<lparr>message_id = m, conversationId = c, content = Body data, isFromGuest = True\<rparr>,
            \<lparr>message_id = fresh_id (map message_id (messages w) @ [m]), conversationId = c,
             content = apology, isFromGuest = False\<rparr>]
      \<and> outbox w' = outbox w @
           [\<lparr>msg_from = ''whatsapp:'' @ twilioPhoneNumber env,
             msg_to = whatsapp (replace_first ''whatsapp:'' [] (From data)),
             msg_body = apology\<rparr>])"
proof -
  let ?a = "JsInstance ''AIAssistant''"
  have fallback: "reply_of env pid cid body w0 = apology" for pid cid body w0
    using assms(1) by (rule reply_of_chat_fails)
  then have "\<forall>cid w0. reply_of env (property_id property) cid (Body data) w0 = apology"
    by simp
  from body_fallback_exchange [OF this assms(2-6)] body_success
  have "\<exists>c m w'. processIncomingMessage_body env ?a data w
                    = (Inr (Success (property_id property) c m), w')
      \<and> m = fresh_id (map message_id (messages w))
      \<and> users w' = bump (userId property) 2 (users w)
      \<and> messages w' = messages w @ [guest_message w c data, reply_message w c data apology]
      \<and> outbox w' = outbox w @ [outbound env (replace_first ''whatsapp:'' [] (From data)) apology]"
    by blast
  then have second: "\<exists>c m w'. processIncomingMessage_body env ?a data w
                    = (Inr (Success (property_id property) c m), w')
      \<and> users w' = map (\<lambda>u. if user_id u = userId property
                               then u\<lparr>messageCount := messageCount u + 2\<rparr> else u) (users w)
      \<and> messages w' = messages w @
           [\<lparr>message_id = m, conversationId = c, content = Body data, isFromGuest = True\<rparr>,
            \<lparr>message_id = fresh_id (map message_id (messages w) @ [m]), conversationId = c,
             content = apology, isFromGuest = False\<rparr>]
      \<and> outbox w' = outbox w @
           [\<lparr>msg_from = ''whatsapp:'' @ twilioPhoneNumber env,
             msg_to = whatsapp (replace_first ''whatsapp:'' [] (From data)),
             msg_body = apology\<rparr>]"
    by (auto simp: bump_def guest_message_def reply_message_def outbound_def)
  have first: "\<forall>pid cid text w0. processMessage env pid cid text w0 = (Inr apology, w0)"
    by (simp add: processMessage_total fallback)
  from first second show ?thesis by blast
qed

text \<open>
  \<^bold>\<open>C3.\<close> The code at an inbound message for an account under its limit, with the
  completion provider down: the module throws while it loads, so the assistant is never
  asked and no apology is substituted. Nothing is stored, no unit is consumed and
  nothing is dispatched; the event ends in the TypeError of the load.
\<close>

theorem chat_down_not_processed:
  "(\<forall>req. \<exists>e. createChatCompletion scenario_env_chat_down req = Inl e)
   \<and> processIncomingMessage scenario_env_chat_down scenario_data (scenario_world 99 100)
     = (Inl (TypeError ''AIAssistant is not a constructor''), scenario_world 99 100)
   \<and> messages (snd (processIncomingMessage scenario_env_chat_down scenario_data
                      (scenario_world 99 100))) = []
   \<and> outbox (snd (processIncomingMessage scenario_env_chat_down scenario_data
                    (scenario_world 99 100))) = []
   \<and> users (snd (processIncomingMessage scenario_env_chat_down scenario_data
                   (scenario_world 99 100)))
       = [\<lparr>user_id = 1, messageCount = 99, messageLimit = 100\<rparr>]"
  by (simp add: processIncomingMessage_throws scenario_world_def scenario_env_chat_down_def
      scenario_env_def)

section \<open>The system prompt\<close>

text \<open>
  \<^bold>\<open>C6\<close> (as amended). The prompt depends on the property details through four
  lines only, those of \<open>checkInTime\<close>, \<open>checkOutTime\<close>, \<open>wifiPassword\<close> and
  \<open>location\<close>: the text before and after them is the same for all details. Each of
  the four lines is the label followed by the value when the field is present and not
  empty, and is empty otherwise, so no label stands without a value. The other
  optional fields (\<open>houseRules\<close>, \<open>nearbyAttractions\<close>, \<open>emergencyContacts\<close>, \<open>faqs\<close>,
  \<open>customNotes\<close>) are never rendered. A property without details gets four empty lines.
\<close>

theorem prompt_renders_four_fields:
  "\<exists>head tail.
     (\<forall>d. createSystemPrompt (property\<lparr>propertyDetails := Some d\<rparr>) relevantInfo =
       head @ rendered_line ''- Check-in time: '' (checkInTime d)
         @ nl @ rendered_line ''- Check-out time: '' (checkOutTime d)
         @ nl @ rendered_line ''- WiFi password: '' (wifiPassword d)
         @ nl @ rendered_line ''- Location: '' (location d)
         @ tail)
     \<and> createSystemPrompt (property\<lparr>propertyDetails := None\<rparr>) relevantInfo =
         head @ nl @ nl @ nl @ tail"
proof -
  let ?lines = "systemPromptLines (property\<lparr>propertyDetails := None\<rparr>) relevantInfo"
  let ?head = "join nl (take 9 ?lines) @ nl"
  let ?tail = "nl @ join nl (drop 13 ?lines)"
  have slot: "(if truthy v then label @ str v else []) = rendered_line label v" for label v
    by (simp add: truthy_def str_def rendered_line_def split: option.splits)
  have some: "createSystemPrompt (property\<lparr>propertyDetails := Some d\<rparr>) relevantInfo =
       ?head @ rendered_line ''- Check-in time: '' (checkInTime d)
         @ nl @ rendered_line ''- Check-out time: '' (checkOutTime d)
         @ nl @ rendered_line ''- WiFi password: '' (wifiPassword d)
         @ nl @ rendered_line ''- Location: '' (location d)
         @ ?tail" for d
    by (simp add: createSystemPrompt_def systemPromptLines_def slot Let_def)
  have none: "createSystemPrompt (property\<lparr>propertyDetails := None\<rparr>) relevantInfo =
       ?head @ nl @ nl @ nl @ ?tail"
    by (simp add: createSystemPrompt_def systemPromptLines_def no_details_def truthy_def Let_def)
  from some none show ?thesis by blast
qed

theorem prompt_renders_four_fields_witness:
  "\<exists>head tail.
     createSystemPrompt
       (scenario_property\<lparr>propertyDetails :=
          Some (no_details\<lparr>checkInTime := Some ''3pm'', wifiPassword := Some [],
                           houseRules := Some ''No smoking''\<rparr>)\<rparr>) ''Parking is free.'' =
       head @ ''- Check-in time: 3pm'' @ nl @ nl @ nl @ tail"
proof -
  from prompt_renders_four_fields [of scenario_property "''Parking is free.''"]
  obtain head tail where "\<forall>d.
     createSystemPrompt (scenario_property\<lparr>propertyDetails := Some d\<rparr>) ''Parking is free.'' =
       head @ rendered_line ''- Check-in time: '' (checkInTime d)
         @ nl @ rendered_line ''- Check-out time: '' (checkOutTime d)
         @ nl @ rendered_line ''- WiFi password: '' (wifiPassword d)
         @ nl @ rendered_line ''- Location: '' (location d)
         @ tail"
    by blast
  from this [rule_format, of "no_details\<lparr>checkInTime := Some ''3pm'', wifiPassword := Some [],
                           houseRules := Some ''No smoking''\<rparr>"]
  show ?thesis
    by (simp add: rendered_line_def no_details_def) blast
qed

text \<open>
  C6 as stated fails for the optional fields outside these four: a property whose only
  detail is a house rule gets the prompt of a property without details, and the rule
  occurs nowhere in it.
\<close>

theorem house_rules_not_rendered:
  "truthy (houseRules rules_details)
   \<and> createSystemPrompt (scenario_property\<lparr>propertyDetails := Some rules_details\<rparr>) []
       = createSystemPrompt (scenario_property\<lparr>propertyDetails := None\<rparr>) []
   \<and> \<not> sublist ''No smoking''
         (createSystemPrompt (scenario_property\<lparr>propertyDetails := Some rules_details\<rparr>) [])"
  by code_simp

section \<open>Messages written by the host\<close>

text \<open>
  The body of \<^verbatim>\<open>sendManualMessage\<close>, when it returns: the message is stored as not from
  the guest, one unit is consumed on the account that owns the property, and the message
  is dispatched to the guest.
\<close>

lemma sendManualMessage_body_consumes_one:
  assumes "sendManualMessage_body env cid body w = (Inr m, w')"
  shows "\<exists>conversation property.
       find (\<lambda>c. conversation_id c = cid) (conversations w) = Some conversation
     \<and> property_of conversation w = Some property
     \<and> m = \<lparr>message_id = fresh_id (map message_id (messages w)), conversationId = cid,
            content = body, isFromGuest = False\<rparr>
     \<and> messages w' = messages w @ [m]
     \<and> users w' = bump (userId property) 1 (users w)
     \<and> outbox w' = outbox w @ [outbound env (guestPhoneNumber conversation) body]"
  using assms
  by (auto simp: sendManualMessage_body_def io_apply store_defs sendWhatsAppMessage_apply property_of_def
      bump_def Let_def split: if_splits option.splits sum.splits)

text \<open>The route never changes an account.\<close>

lemma post_message_keeps_users:
  "users (snd (post_message env reqUserId cid body w)) = users w"
  by (simp add: post_message_def io_apply store_defs sendMessage_def Let_def
      split: if_splits option.splits sum.splits prod.splits)

text \<open>
  \<^bold>\<open>C7.\<close> The code at a message that the owner posts to an existing conversation
  through \<^verbatim>\<open>POST /:id/messages\<close>: the message is stored as not from the guest and the
  answer has status 201, but the owner's count stays at 5. The load of \<^verbatim>\<open>twilio.js\<close>
  inside the route throws and is dropped, so nothing reaches the transport. The body of
  \<open>sendManualMessage\<close> on the same input raises the count to 6.
\<close>

theorem host_route_message_uncounted:
  "post_message scenario_env 1 1 (Some ''Welcome'') host_world =
     (JsonRow 201 \<lparr>message_id = 1, conversationId = 1, content = ''Welcome'', isFromGuest = False\<rparr>,
      host_world
        \<lparr>messages := [\<lparr>message_id = 1, conversationId = 1, content = ''Welcome'',
                        isFromGuest = False\<rparr>]\<rparr>)
   \<and> outbox (snd (post_message scenario_env 1 1 (Some ''Welcome'') host_world)) = []
   \<and> users (snd (post_message scenario_env 1 1 (Some ''Welcome'') host_world))
       = [\<lparr>user_id = 1, messageCount = 5, messageLimit = 100\<rparr>]
   \<and> users (snd (sendManualMessage_body scenario_env 1 ''Welcome'' host_world))
       = [\<lparr>user_id = 1, messageCount = 6, messageLimit = 100\<rparr>]"
  by code_simp

theorem host_route_message_uncounted_witness:
  "truthy (Some ''Welcome'') \<and> trim ''Welcome'' \<noteq> []
   \<and> fst (post_message scenario_env 1 1 (Some ''Welcome'') host_world)
       = JsonRow 201 \<lparr>message_id = 1, conversationId = 1, content = ''Welcome'',
                       isFromGuest = False\<rparr>
   \<and> map messageCount (users (snd (post_message scenario_env 1 1 (Some ''Welcome'') host_world)))
       = map messageCount (users host_world)"
proof -
  have guard: "truthy (Some ''Welcome'') \<and> trim ''Welcome'' \<noteq> []"
    by code_simp
  from host_route_message_uncounted guard
  show ?thesis
    by (simp add: host_world_def scenario_world_def)
qed

section \<open>Unknown recipients\<close>

text \<open>
  The body of the pipeline and the handler of the webhook, for any assistant. When the
  recipient address of an inbound event matches no property, the body returns
  \<open>Property not found\<close> and leaves the whole state as it was, and the handler answers
  with the empty TwiML document.
\<close>

lemma body_unknown_recipient:
  assumes "\<not> store_fails env PropertyFindFirst"
    and "\<forall>p \<in> set (properties w). phoneNumber p \<noteq> replace_first ''whatsapp:'' [] (To data)"
  shows "processIncomingMessage_body env a data w = (Inr (Failure ''Property not found''), w)
       \<and> webhook_handler env a data w =
           (\<lparr>contentType = ''text/xml'', reply_body = ''<Response></Response>''\<rparr>, w)"
proof -
  have none: "find (\<lambda>p. phoneNumber p = replace_first ''whatsapp:'' [] (To data)) (properties w) = None"
    using assms(2) by (simp add: find_None_iff)
  have run: "processIncomingMessage_body env a data w = (Inr (Failure ''Property not found''), w)"
    using assms(1) none
    by (simp add: body_stages io_apply store_defs)
  show ?thesis using run by (simp add: webhook_handler_def)
qed

text \<open>Whatever the body does, the handler answers with the empty TwiML document.\<close>

lemma webhook_handler_always_acknowledges:
  "fst (webhook_handler env a data w) =
     \<lparr>contentType = ''text/xml'', reply_body = ''<Response></Response>''\<rparr>"
  by (simp add: webhook_handler_def split: prod.splits sum.splits)

text \<open>
  \<^bold>\<open>C9.\<close> The code at an inbound event whose recipient address matches no property:
  \<^verbatim>\<open>webhook.js\<close> requires the module of the pipeline at its top and fails to load with
  it, so there is no route: the event gets the TypeError of the load and no
  acknowledgment. Nothing is written and nothing is sent.
\<close>

theorem unknown_recipient_not_acknowledged:
  "find (\<lambda>p. phoneNumber p = replace_first ''whatsapp:'' []
                               (To (scenario_data\<lparr>To := ''whatsapp:+19990000''\<rparr>)))
      (properties (scenario_world 5 100)) = None
   \<and> webhook_twilio scenario_env (scenario_data\<lparr>To := ''whatsapp:+19990000''\<rparr>)
       (scenario_world 5 100)
     = (Inl (TypeError ''AIAssistant is not a constructor''), scenario_world 5 100)
   \<and> (\<forall>reply. fst (webhook_twilio scenario_env (scenario_data\<lparr>To := ''whatsapp:+19990000''\<rparr>)
                      (scenario_world 5 100)) \<noteq> Inr reply)"
  by (simp add: webhook_twilio_throws scenario_defs)

section \<open>New conversations\<close>

text \<open>
  The body of the pipeline, for any assistant. Whenever it creates a conversation,
  whatever happens afterwards, exactly one row is appended to the conversations; its
  guest address is the sender's, and its guest name is the display name of the event
  when that is present and not empty, and the fixed string \<open>Guest\<close> otherwise.
\<close>

lemma body_new_conversation_guest_name:
  assumes "processIncomingMessage_body env a data w = (r, w')"
    and "conversations w' \<noteq> conversations w"
  shows "\<exists>c. conversations w' = conversations w @ [c]
           \<and> guestPhoneNumber c = replace_first ''whatsapp:'' [] (From data)
           \<and> guestName c = (case ProfileName data of
                               None \<Rightarrow> ''Guest''
                             | Some n \<Rightarrow> if n = [] then ''Guest'' else n)"
  using assms(1)
proof (cases rule: body_cases)
  case (store_down e)
  then show ?thesis using assms(2) by simp
next
  case not_found
  then show ?thesis using assms(2) by simp
next
  case (found property)
  from found(2) show ?thesis
  proof (cases rule: resolved_cases)
    case (store_down e)
    then show ?thesis using assms(2) by simp
  next
    case (rejected user)
    then show ?thesis using assms(2) by simp
  next
    case (admitted user)
    from admitted(3) show ?thesis
    proof (cases rule: admitted_cases)
      case (store_down e)
      then show ?thesis using assms(2) by simp
    next
      case (existing c)
      then show ?thesis using assms(2) exchange_frame by blast
    next
      case created
      from exchange_frame [OF created(2)]
      show ?thesis
        by (simp add: new_conversation_def truthy_def str_def split: option.splits)
    qed
  qed
qed

text \<open>The body at a guest without a display name, and at one whose display name is empty.\<close>

lemma anonymous_guest_body_run:
  "map guestName (conversations (snd (processIncomingMessage_body scenario_env
      (JsInstance ''AIAssistant'') scenario_data_anonymous (scenario_world 99 100)))) = [''Guest'']
   \<and> map guestName (conversations (snd (processIncomingMessage_body scenario_env
      (JsInstance ''AIAssistant'') (scenario_data\<lparr>ProfileName := Some []\<rparr>)
      (scenario_world 99 100)))) = [''Guest'']"
  by code_simp


section \<open>Two events for one guest at the same time\<close>

text \<open>
  Cutting the body at the answer of the lookup loses nothing: when an event gets that
  far, its run is the rest of the run from there, in the same state.
\<close>

lemma body_resumes:
  assumes "suspended_after_lookup env data w = Some (property, guestPhone, existing)"
  shows "processIncomingMessage_body env a data w
           = after_lookup env a data property guestPhone existing w"
  using assms
  by (auto simp: suspended_after_lookup_def body_stages resolved_def admitted_def io_apply
      store_defs Let_def split: if_splits option.splits sum.splits)

text \<open>
  With a unique index in the store, and a constructed assistant, the schedule leaves one
  row; the event that resumes is not retried as a lookup but ends in the error of the
  store, and its message is neither stored nor answered.
\<close>

lemma interleaved_unique_index:
  "map_option (\<lambda>(resultA, resultB, w2).
       (resultA, resultB, map conversation_id (rows_of 1 ''+15551234'' w2),
        map content (messages w2)))
     (interleaved scenario_env_unique (JsInstance ''AIAssistant'') scenario_data scenario_data
        (scenario_world 5 100))
   = Some (Inl (Error ''Unique constraint failed''), Inr (Success 1 1 1), [1],
           [''Hi'', ''Check-in is at 3pm.''])"
  by code_simp

text \<open>
  \<^bold>\<open>C8.\<close> The code at two inbound events of one guest for one property that has no
  conversation with them yet. As the program is written, the module throws while it
  loads: each event ends in the TypeError and the pair has no row at all. In the body,
  with a constructed assistant and no unique index in the store, the schedule in which
  the first event is suspended at the answer of its lookup, the second runs, and the
  first resumes, ends with both events successful and two rows for the pair.
\<close>

theorem concurrent_events_rows:
  "processIncomingMessage scenario_env scenario_data (scenario_world 5 100)
     = (Inl (TypeError ''AIAssistant is not a constructor''), scenario_world 5 100)
   \<and> rows_of 1 ''+15551234'' (scenario_world 5 100) = []
   \<and> suspended_after_lookup scenario_env scenario_data (scenario_world 5 100)
       = Some (scenario_property, ''+15551234'', None)
   \<and> map_option (\<lambda>(resultA, resultB, w2).
         (resultA, resultB, map conversation_id (rows_of 1 ''+15551234'' w2)))
       (interleaved scenario_env (JsInstance ''AIAssistant'') scenario_data scenario_data
          (scenario_world 5 100))
     = Some (Inr (Success 1 2 3), Inr (Success 1 1 1), [1, 2])"
  by code_simp

end
